theory Spec2Isabelle
  imports Main "HOL-Library.Sublist"
begin

section \<open>Text and numbers as the Go code has them\<close>

text \<open>
  A Go \<open>string\<close> is a sequence of bytes and is modelled as \<^typ>\<open>string\<close>. An \<open>error\<close>
  value is modelled by its message. Go's \<open>int\<close> (64 bits on the platforms the tool is
  built for) is modelled as \<^typ>\<open>int\<close>: the program compares and prints such values but
  never does arithmetic on them, and the one place where a value enters from text
  (\<open>strconv.Atoi\<close>) checks the 64-bit range explicitly.
\<close>

abbreviation NL :: char where
  "NL \<equiv> CHR 0x0A"

abbreviation ESC :: char where
  "ESC \<equiv> CHR 0x1B"

definition is_digit :: "char \<Rightarrow> bool" where
  "is_digit c = (48 \<le> (of_char c :: nat) \<and> (of_char c :: nat) \<le> 57)"

text \<open>\<open>fmt.Sprintf("%d", n)\<close>: the decimal rendering of an integer.\<close>

fun Itoa_nat :: "nat \<Rightarrow> string" where
  "Itoa_nat n =
     (if n < 10 then [''0123456789'' ! n]
      else Itoa_nat (n div 10) @ [''0123456789'' ! (n mod 10)])"

declare Itoa_nat.simps [simp del]

definition Sprintf_d :: "int \<Rightarrow> string" where
  "Sprintf_d i = (if i < 0 then CHR ''-'' # Itoa_nat (nat (- i)) else Itoa_nat (nat i))"

text \<open>
  \<open>strconv.Atoi\<close>: an optional sign, then one or more decimal digits and nothing else,
  with a value that fits a 64-bit signed integer. Only \<open>err == nil\<close> is inspected by the
  program, so a failure is \<open>None\<close>.
\<close>

fun digits_val :: "nat \<Rightarrow> string \<Rightarrow> nat option" where
  "digits_val n [] = Some n"
| "digits_val n (c # cs) =
     (if is_digit c then digits_val (n * 10 + (of_char c - 48)) cs else None)"

definition Atoi :: "string \<Rightarrow> int option" where
  "Atoi s =
     (let (neg, ds) =
            (case s of
               [] \<Rightarrow> (False, [])
             | c # cs \<Rightarrow>
                 if c = CHR ''-'' then (True, cs)
                 else if c = CHR ''+'' then (False, cs)
                 else (False, s))
      in if ds = [] then None
         else (case digits_val 0 ds of
                 None \<Rightarrow> None
               | Some n \<Rightarrow>
                   let v = (if neg then - int n else int n)
                   in if - (2 ^ 63) \<le> v \<and> v < 2 ^ 63 then Some v else None))"

section \<open>The program's types\<close>

record AppConfig =
  MaxDiffTokens :: int
  PromptPath :: string
  ModelName :: string

record Config =
  MaxDiffSize :: int
  PromptPath :: string
  UserContext :: string
  IsGit :: bool
  ModelName :: string

record PromptData =
  Branch :: string
  UserContext :: string

definition DefaultConfig :: AppConfig where
  "DefaultConfig =
     \<lparr>MaxDiffTokens = 12500, AppConfig.PromptPath = [], AppConfig.ModelName = []\<rparr>"

section \<open>The world outside the program\<close>

text \<open>
  The tokenizer library: \<open>tokenizer.Get\<close> yields a codec or an error; the codec encodes
  text to token ids and decodes token ids back to text, each of which may fail.
\<close>

type_synonym token = nat

record Codec =
  Encode :: "string \<Rightarrow> string + token list"
  Decode :: "token list \<Rightarrow> string + string"

text \<open>
  What a subprocess does once started: what it writes to its standard output and standard
  error, and the error \<open>Run\<close> reports (a failure to start, or a non-zero exit).
\<close>

record proc_result =
  proc_stdout :: string
  proc_stderr :: string
  proc_error :: "string option"

text \<open>
  The keys a TOML configuration file sets; \<open>toml.DecodeFile\<close> writes the keys it finds
  into the struct it is given and leaves the other fields alone.
\<close>

record toml_doc =
  max_diff_tokens :: "int option"
  prompt_path :: "string option"
  model_name :: "string option"

text \<open>
  An opened file as the scanner reads it: the bytes delivered, and the error (if any)
  with which reading stops after them instead of end-of-file.
\<close>

record file_stream =
  file_data :: string
  read_error :: "string option"

text \<open>
  Every call the program makes into the operating system or a library whose result the
  program cannot compute itself is a field of the world. The first argument of
  \<open>exec_Run\<close> is the command name, the second its arguments, the third its standard input.
  The two template fields stand for \<open>text/template\<close> on templates that use more than
  plain text and the two field actions (see \<open>template_Parse\<close> below): the error with
  which such a template fails to parse, and the outcome of executing it.
\<close>

record world =
  os_Args :: "string list"
  os_Getenv :: "string \<Rightarrow> string"
  os_UserHomeDir :: "string + string"
  os_Stat :: "string \<Rightarrow> bool"
  os_ReadFile :: "string \<Rightarrow> string + string"
  os_Open :: "string \<Rightarrow> string + file_stream"
  filepath_Join :: "string list \<Rightarrow> string"
  strings_TrimSpace :: "string \<Rightarrow> string"
  exec_LookPath :: "string \<Rightarrow> bool"
  exec_Run :: "string \<Rightarrow> string list \<Rightarrow> string \<Rightarrow> proc_result"
  toml_DecodeFile :: "string \<Rightarrow> toml_doc \<times> string option"
  tokenizer_Get :: "string + Codec"
  template_parse_error :: "string \<Rightarrow> string option"
  template_execute :: "string \<Rightarrow> PromptData \<Rightarrow> string + string"

text \<open>
  What the program has done so far: the text on its standard output and standard error,
  and the subprocesses it has started (command name, arguments, standard input).
\<close>

record io =
  stdout :: string
  stderr :: string
  spawned :: "(string \<times> string list \<times> string) list"

definition io_init :: io where
  "io_init = \<lparr>stdout = [], stderr = [], spawned = []\<rparr>"

definition print_out :: "string \<Rightarrow> io \<Rightarrow> io" where
  "print_out s t = t\<lparr>stdout := stdout t @ s\<rparr>"

definition print_err :: "string \<Rightarrow> io \<Rightarrow> io" where
  "print_err s t = t\<lparr>stderr := stderr t @ s\<rparr>"

text \<open>
  A Go function of result type \<open>(T, error)\<close> either returns a value, returns an error, or
  panics; a panic is not an error value and is not caught anywhere in the program.
\<close>

datatype 'a outcome = Ok 'a | Err string | Panic string

section \<open>truncateDiff\<close>

text \<open>
  The slice expression \<open>tokens[:n]\<close>: a run-time panic unless \<open>0 \<le> n \<le> cap(tokens)\<close>.
  Where the program evaluates it, \<open>n < len(tokens)\<close> is already known, so the length
  stands in for the capacity.
\<close>

definition slice_to :: "'a list \<Rightarrow> int \<Rightarrow> 'a list option" where
  "slice_to xs n = (if 0 \<le> n \<and> n \<le> int (length xs) then Some (take (nat n) xs) else None)"

definition truncation_notice :: "int \<Rightarrow> string" where
  "truncation_notice maxTokens =
     [NL, NL] @ ''[Diff truncated due to size - showing first '' @ Sprintf_d maxTokens
       @ '' tokens]''"

definition truncateDiff :: "world \<Rightarrow> string \<Rightarrow> int \<Rightarrow> string outcome" where
  "truncateDiff w diff maxTokens =
     (case tokenizer_Get w of
        Inl err \<Rightarrow> Err (''failed to get tokenizer: '' @ err)
      | Inr enc \<Rightarrow>
          (case Encode enc diff of
             Inl err \<Rightarrow> Err (''failed to encode diff: '' @ err)
           | Inr tokens \<Rightarrow>
               if int (length tokens) \<le> maxTokens then Ok diff
               else
                 (case slice_to tokens maxTokens of
                    None \<Rightarrow> Panic ''slice bounds out of range''
                  | Some truncatedTokens \<Rightarrow>
                      (case Decode enc truncatedTokens of
                         Inl err \<Rightarrow> Err (''failed to decode truncated tokens: '' @ err)
                       | Inr truncatedDiff \<Rightarrow>
                           Ok (truncatedDiff @ truncation_notice maxTokens)))))"

section \<open>renderPromptTemplate\<close>

definition DefaultPromptTemplate :: string where
  "DefaultPromptTemplate =
       ''You are an expert programmer helping to write concise, informative git commit messages. '' @ [NL] @
       ''The user will provide you with a git diff, and you will respond with ONLY a commit message.'' @ [NL] @
       [NL] @
       ''Here are the characteristics of a good commit message:'' @ [NL] @
       ''- Start with a short summary line (50-72 characters)'' @ [NL] @
       ''- Use the imperative mood ('' @ [CHR 0x22] @ ''Add feature'' @ [CHR 0x22] @ '' not '' @ [CHR 0x22] @ ''Added feature'' @ [CHR 0x22] @ '')'' @ [NL] @
       ''- Optionally include a more detailed explanatory paragraph after the summary, separated by a blank line'' @ [NL] @
       ''- Explain WHAT changed and WHY, but not HOW (that'' @ [CHR 0x27] @ ''s in the diff)'' @ [NL] @
       ''- Reference relevant issue numbers if applicable (e.g. '' @ [CHR 0x22] @ ''Fixes #123'' @ [CHR 0x22] @ '')'' @ [NL] @
       [NL] @
       ''Current branch: {{.Branch}}'' @ [NL] @
       ''User context: {{.UserContext}}'' @ [NL] @
       [NL] @
       ''Respond with ONLY the commit message, no additional explanations, introductions, or notes.''"

definition fileExists :: "world \<Rightarrow> string \<Rightarrow> bool" where
  "fileExists w path = os_Stat w path"

text \<open>
  \<open>text/template\<close> on the templates the program ships and documents: plain text with the
  field actions \<open>{{.Branch}}\<close> and \<open>{{.UserContext}}\<close>. The lexer copies text up to the
  leftmost \<open>{{\<close>; a field action on a \<open>PromptData\<close> value prints the field unescaped and
  cannot fail. Any other use of \<open>{{\<close> is outside this fragment and is left to the world.
\<close>

datatype node = TextNode char | BranchField | UserContextField

fun parse_fields :: "string \<Rightarrow> node list option" where
  "parse_fields [] = Some []"
| "parse_fields (c # cs) =
     (if prefix ''{{.Branch}}'' (c # cs) then
        map_option (Cons BranchField) (parse_fields (drop 10 cs))
      else if prefix ''{{.UserContext}}'' (c # cs) then
        map_option (Cons UserContextField) (parse_fields (drop 15 cs))
      else if prefix ''{{'' (c # cs) then None
      else map_option (Cons (TextNode c)) (parse_fields cs))"

fun exec_node :: "PromptData \<Rightarrow> node \<Rightarrow> string" where
  "exec_node data (TextNode c) = [c]"
| "exec_node data BranchField = Branch data"
| "exec_node data UserContextField = PromptData.UserContext data"

datatype template = Fields "node list" | Other string

definition template_Parse :: "world \<Rightarrow> string \<Rightarrow> string + template" where
  "template_Parse w tmplContent =
     (case parse_fields tmplContent of
        Some nodes \<Rightarrow> Inr (Fields nodes)
      | None \<Rightarrow>
          (case template_parse_error w tmplContent of
             Some err \<Rightarrow> Inl err
           | None \<Rightarrow> Inr (Other tmplContent)))"

fun template_Execute :: "world \<Rightarrow> template \<Rightarrow> PromptData \<Rightarrow> string + string" where
  "template_Execute w (Fields nodes) data = Inr (concat (map (exec_node data) nodes))"
| "template_Execute w (Other tmplContent) data = template_execute w tmplContent data"

definition renderPromptTemplate ::
    "world \<Rightarrow> string \<Rightarrow> PromptData \<Rightarrow> io \<Rightarrow> (string + string) \<times> io" where
  "renderPromptTemplate w templatePath data t =
     (case (if templatePath \<noteq> [] \<and> fileExists w templatePath then
              (case os_ReadFile w templatePath of
                 Inl err \<Rightarrow> Inl (''failed to read template file: '' @ err)
               | Inr content \<Rightarrow>
                   Inr (content, print_err (''Using template from: '' @ templatePath @ [NL]) t))
            else
              Inr (DefaultPromptTemplate,
                   print_err (''Using default embedded template'' @ [NL]) t)) of
        Inl err \<Rightarrow> (Inl err, t)
      | Inr (tmplContent, t') \<Rightarrow>
          (case template_Parse w tmplContent of
             Inl err \<Rightarrow> (Inl (''failed to parse template: '' @ err), t')
           | Inr tmpl \<Rightarrow>
               (case template_Execute w tmpl data of
                  Inl err \<Rightarrow> (Inl (''failed to execute template: '' @ err), t')
                | Inr out \<Rightarrow> (Inr out, t'))))"

section \<open>getGeneratedFilesFromGitattributes\<close>

subsection \<open>The scanner\<close>

text \<open>
  \<open>bufio.Scanner\<close> with its default split function \<open>ScanLines\<close> and its default buffer
  limit \<open>MaxScanTokenSize = 64 * 1024\<close>: a line ends at a newline or at the end of the
  data, one trailing carriage return is dropped, no empty line is delivered after the last
  newline, and a line of 65536 bytes or more stops the scan with \<open>ErrTooLong\<close>.
  \<open>scan_lines\<close> gives the lines delivered and whether the scan stopped in that way.
\<close>

definition dropCR :: "string \<Rightarrow> string" where
  "dropCR l = (if l \<noteq> [] \<and> last l = CHR 0x0D then butlast l else l)"

definition MaxScanTokenSize :: nat where
  "MaxScanTokenSize = 64 * 1024"

function scan_lines :: "string \<Rightarrow> string list \<times> bool" where
  "scan_lines data =
     (if data = [] then ([], False)
      else
        (let l = takeWhile (\<lambda>c. c \<noteq> NL) data
         in if MaxScanTokenSize \<le> length l then ([], True)
            else
              (case scan_lines (drop (Suc (length l)) data) of
                 (ls, too_long) \<Rightarrow> (dropCR l # ls, too_long))))"
  by pat_completeness auto
termination
  by (relation "measure length") auto

declare scan_lines.simps [simp del]

text \<open>
  The lines for which \<open>scanner.Scan()\<close> returns true, and what \<open>scanner.Err()\<close> returns
  afterwards.
\<close>

definition Scanner :: "file_stream \<Rightarrow> string list \<times> string option" where
  "Scanner f =
     (case scan_lines (file_data f) of
        (ls, too_long) \<Rightarrow>
          (ls, if too_long then Some ''bufio.Scanner: token too long'' else read_error f))"

subsection \<open>The regular expression\<close>

text \<open>
  The regexp package reads its input rune by rune: a well-formed UTF-8 sequence is one
  rune, and any other byte is a rune of its own (\<open>utf8.DecodeRuneInString\<close>).
  \<open>rune_width\<close> is the number of bytes of the first rune.
\<close>

definition cont_byte :: "char \<Rightarrow> bool" where
  "cont_byte c = (0x80 \<le> (of_char c :: nat) \<and> (of_char c :: nat) \<le> 0xBF)"

definition second_byte :: "nat \<Rightarrow> char \<Rightarrow> bool" where
  "second_byte x c =
     ((if x = 0xE0 then 0xA0 else if x = 0xF0 then 0x90 else 0x80) \<le> (of_char c :: nat) \<and>
      (of_char c :: nat) \<le> (if x = 0xED then 0x9F else if x = 0xF4 then 0x8F else 0xBF))"

fun rune_width :: "string \<Rightarrow> nat" where
  "rune_width [] = 0"
| "rune_width (b # bs) =
     (let x = (of_char b :: nat)
      in if x < 0xC2 \<or> 0xF4 < x then 1
         else if x < 0xE0 then
           (case bs of b1 # _ \<Rightarrow> if second_byte x b1 then 2 else 1 | _ \<Rightarrow> 1)
         else if x < 0xF0 then
           (case bs of
              b1 # b2 # _ \<Rightarrow> if second_byte x b1 \<and> cont_byte b2 then 3 else 1
            | _ \<Rightarrow> 1)
         else
           (case bs of
              b1 # b2 # b3 # _ \<Rightarrow>
                if second_byte x b1 \<and> cont_byte b2 \<and> cont_byte b3 then 4 else 1
            | _ \<Rightarrow> 1))"

text \<open>
  The pieces the program's expression is made of. A class is given by a test on the first
  byte of a rune; that is exact for the classes used here, which are sets of ASCII
  characters and complements of such sets. Repetition is greedy.
\<close>

datatype item =
    One "char \<Rightarrow> bool"
  | Star "char \<Rightarrow> bool"
  | Plus "char \<Rightarrow> bool"
  | Lit string

text \<open>
  \<open>greedy P s\<close>: what may remain of \<open>s\<close> after zero or more runes of the class, in the
  order in which a backtracking matcher tries them: the longest repetition first.
\<close>

function greedy :: "(char \<Rightarrow> bool) \<Rightarrow> string \<Rightarrow> string list" where
  "greedy P s =
     (if s \<noteq> [] \<and> P (hd s) then greedy P (drop (rune_width s) s) @ [s] else [s])"
  by pat_completeness auto

lemma rune_width_pos: "s \<noteq> [] \<Longrightarrow> 0 < rune_width s"
  by (cases s) (auto simp: Let_def split: list.splits)

termination greedy
  by (relation "measure (\<lambda>(P, s). length s)") (use rune_width_pos in auto)

declare greedy.simps [simp del]

fun match_item :: "item \<Rightarrow> string \<Rightarrow> string list" where
  "match_item (One P) s = (if s \<noteq> [] \<and> P (hd s) then [drop (rune_width s) s] else [])"
| "match_item (Star P) s = greedy P s"
| "match_item (Plus P) s =
     (if s \<noteq> [] \<and> P (hd s) then greedy P (drop (rune_width s) s) else [])"
| "match_item (Lit l) s = (if prefix l s then [drop (length l) s] else [])"

text \<open>All ways of matching a sequence of items at the start of \<open>s\<close>, best first.\<close>

fun match_seq :: "item list \<Rightarrow> string \<Rightarrow> string list" where
  "match_seq [] s = [s]"
| "match_seq (i # is) s = concat (map (match_seq is) (match_item i s))"

text \<open>
  \<open>\s\<close> is the class of tab, newline, form feed, carriage return and space; \<open>.\<close> is
  every rune but newline.
\<close>

definition is_space :: "char \<Rightarrow> bool" where
  "is_space c = (c = CHR 0x09 \<or> c = NL \<or> c = CHR 0x0C \<or> c = CHR 0x0D \<or> c = CHR '' '')"

text \<open>
  The expression \<^verbatim>\<open>^([^#][^\s]+)\s+.*linguist-generated\s*=\s*true\<close>, as its capture
  group and what follows the group.
\<close>

definition re_group :: "item list" where
  "re_group = [One (\<lambda>c. c \<noteq> CHR ''#''), Plus (\<lambda>c. \<not> is_space c)]"

definition re_rest :: "item list" where
  "re_rest =
     [Plus is_space, Star (\<lambda>c. c \<noteq> NL), Lit ''linguist-generated'',
      Star is_space, Lit ''='', Star is_space, Lit ''true'']"

text \<open>
  \<open>re.FindStringSubmatch(line)\<close>: the expression is anchored at the start of the text, so
  the only match is one starting there. The result is empty (\<open>nil\<close>) when there is none,
  and otherwise the text of the whole match followed by the text of the group, with the
  group as the first (best) way of matching it after which the rest can match.
\<close>

definition FindStringSubmatch :: "string \<Rightarrow> string list" where
  "FindStringSubmatch line =
     (case filter (\<lambda>r. match_seq re_rest r \<noteq> []) (match_seq re_group line) of
        [] \<Rightarrow> []
      | r # _ \<Rightarrow>
          [take (length line - length (hd (match_seq re_rest r))) line,
           take (length line - length r) line])"

subsection \<open>The scan loop and the function\<close>

fun scan_loop :: "string list \<Rightarrow> string list \<Rightarrow> string list" where
  "scan_loop [] patterns = patterns"
| "scan_loop (line # rest) patterns =
     (let matches = FindStringSubmatch line
      in if length matches > 1 then scan_loop rest (patterns @ [matches ! 1])
         else scan_loop rest patterns)"

definition getGeneratedFilesFromGitattributes :: "world \<Rightarrow> string + string list" where
  "getGeneratedFilesFromGitattributes w =
     (case os_Open w ''.gitattributes'' of
        Inl err \<Rightarrow> Inl err
      | Inr file \<Rightarrow>
          (case Scanner file of
             (ls, scan_err) \<Rightarrow>
               (let patterns = scan_loop ls []
                in case scan_err of Some err \<Rightarrow> Inl err | None \<Rightarrow> Inr patterns)))"

section \<open>Running commands\<close>

text \<open>
  \<open>cmd.Run()\<close> and \<open>cmd.Output()\<close> on a command with no standard input attached: the
  subprocess is recorded as started, and its output does not reach the program's own
  standard output or standard error. \<open>Run\<close> gives the error, \<open>Output\<close> the captured
  standard output or the error.
\<close>

definition started :: "string \<Rightarrow> string list \<Rightarrow> string \<Rightarrow> io \<Rightarrow> io" where
  "started name args input t = t\<lparr>spawned := spawned t @ [(name, args, input)]\<rparr>"

definition cmd_Run :: "world \<Rightarrow> string \<Rightarrow> string list \<Rightarrow> io \<Rightarrow> string option \<times> io" where
  "cmd_Run w name args t = (proc_error (exec_Run w name args []), started name args [] t)"

definition cmd_Output :: "world \<Rightarrow> string \<Rightarrow> string list \<Rightarrow> io \<Rightarrow> (string + string) \<times> io" where
  "cmd_Output w name args t =
     (let r = exec_Run w name args []
      in (case proc_error r of Some err \<Rightarrow> Inl err | None \<Rightarrow> Inr (proc_stdout r),
          started name args [] t))"

definition commandExists :: "world \<Rightarrow> string \<Rightarrow> bool" where
  "commandExists w cmd = exec_LookPath w cmd"

definition isGitRepo :: "world \<Rightarrow> io \<Rightarrow> bool \<times> io" where
  "isGitRepo w t =
     (if os_Stat w ''.git'' then (True, t)
      else
        (case cmd_Run w ''git'' [''rev-parse'', ''--is-inside-work-tree''] t of
           (err, t') \<Rightarrow> (err = None, t')))"

definition isJJRepo :: "world \<Rightarrow> io \<Rightarrow> bool \<times> io" where
  "isJJRepo w t =
     (case cmd_Run w ''jj'' [''status'', ''--quiet''] t of (err, t') \<Rightarrow> (err = None, t'))"

definition getBranchName :: "world \<Rightarrow> bool \<Rightarrow> io \<Rightarrow> string \<times> io" where
  "getBranchName w isGit t =
     (case (if isGit then cmd_Output w ''git'' [''rev-parse'', ''--abbrev-ref'', ''HEAD''] t
            else cmd_Output w ''jj''
                   [''log'', ''--no-graph'', ''-T'', ''local_bookmarks'', ''--limit'', ''1''] t) of
        (Inl err, t') \<Rightarrow> ([], t')
      | (Inr output, t') \<Rightarrow> (strings_TrimSpace w output, t'))"

section \<open>getDiff\<close>

definition commonExcludes :: "string list" where
  "commonExcludes = [''pnpm-lock.yaml'', ''yarn.lock'', ''package-lock.json'']"

text \<open>The first half of \<open>getDiff\<close>: the exclude patterns, or the error it returns.\<close>

definition excludePatterns :: "world \<Rightarrow> Config \<Rightarrow> string + string list" where
  "excludePatterns w config =
     (if IsGit config \<and> fileExists w ''.gitattributes'' then
        (case getGeneratedFilesFromGitattributes w of
           Inl err \<Rightarrow> Inl (''failed to parse .gitattributes: '' @ err)
         | Inr generatedPatterns \<Rightarrow> Inr (([] @ generatedPatterns) @ commonExcludes))
      else Inr ([] @ commonExcludes))"

text \<open>The command line \<open>getDiff\<close> builds from the patterns: the command and its arguments.\<close>

definition diffCommand :: "Config \<Rightarrow> string list \<Rightarrow> string \<times> string list" where
  "diffCommand config pats =
     (if IsGit config then
        (''git'', [''diff'', ''--cached'', ''--'', ''.''] @ map (\<lambda>pattern. '':(exclude)'' @ pattern) pats)
      else (''jj'', [''diff'', ''--git''] @ map (\<lambda>pattern. ''~'' @ pattern) pats))"

definition getDiff :: "world \<Rightarrow> Config \<Rightarrow> io \<Rightarrow> (string + string) \<times> io" where
  "getDiff w config t =
     (case excludePatterns w config of
        Inl err \<Rightarrow> (Inl err, t)
      | Inr pats \<Rightarrow>
          (case diffCommand config pats of
             (name, args) \<Rightarrow>
               (case cmd_Output w name args t of
                  (Inl err, t') \<Rightarrow> (Inl (''failed to get diff: '' @ err), t')
                | (Inr output, t') \<Rightarrow> (Inr output, t'))))"

section \<open>loadConfig\<close>

text \<open>Decoding a file into the configuration: the keys it sets overwrite the fields.\<close>

definition decode_into :: "toml_doc \<Rightarrow> AppConfig \<Rightarrow> AppConfig" where
  "decode_into doc config =
     \<lparr>MaxDiffTokens = (case max_diff_tokens doc of Some n \<Rightarrow> n | None \<Rightarrow> MaxDiffTokens config),
      AppConfig.PromptPath =
        (case prompt_path doc of Some p \<Rightarrow> p | None \<Rightarrow> AppConfig.PromptPath config),
      AppConfig.ModelName =
        (case model_name doc of Some m \<Rightarrow> m | None \<Rightarrow> AppConfig.ModelName config)\<rparr>"

text \<open>
  The loop over the configuration paths: the configuration, the error with which the
  function returns from inside the loop (if any), and \<open>configLoaded\<close>.
\<close>

fun try_config_paths ::
    "world \<Rightarrow> string list \<Rightarrow> AppConfig \<Rightarrow> io \<Rightarrow> (AppConfig \<times> string option \<times> bool) \<times> io" where
  "try_config_paths w [] config t = ((config, None, False), t)"
| "try_config_paths w (path # rest) config t =
     (if fileExists w path then
        (case toml_DecodeFile w path of
           (doc, Some err) \<Rightarrow>
             ((decode_into doc config,
               Some (''error loading config from '' @ path @ '': '' @ err), False), t)
         | (doc, None) \<Rightarrow>
             ((decode_into doc config, None, True),
              print_err (''Loaded configuration from '' @ path @ [NL]) t))
      else try_config_paths w rest config t)"

definition configPaths :: "world \<Rightarrow> string \<Rightarrow> string list" where
  "configPaths w homeDir =
     (let xdgConfigHome = os_Getenv w ''XDG_CONFIG_HOME'';
          xdgConfigHome =
            (if xdgConfigHome = [] then filepath_Join w [homeDir, ''.config'']
             else xdgConfigHome)
      in [filepath_Join w [xdgConfigHome, ''lazycommit'', ''config.toml''],
          filepath_Join w [homeDir, ''.lazycommit.toml'']])"

text \<open>The three overrides from the environment, in the order of the source.\<close>

definition env_overrides :: "world \<Rightarrow> AppConfig \<Rightarrow> io \<Rightarrow> AppConfig \<times> io" where
  "env_overrides w config t =
     (let envMaxTokens = os_Getenv w ''LAZYCOMMIT_MAX_TOKENS'';
          (config, t) =
            (if envMaxTokens \<noteq> [] then
               (case Atoi envMaxTokens of
                  Some maxTokens \<Rightarrow>
                    (config\<lparr>MaxDiffTokens := maxTokens\<rparr>,
                     print_err (''Using max tokens from environment: '' @ Sprintf_d maxTokens
                                  @ [NL]) t)
                | None \<Rightarrow> (config, t))
             else (config, t));
          envPromptPath = os_Getenv w ''LAZYCOMMIT_TEMPLATE'';
          (config, t) =
            (if envPromptPath \<noteq> [] then
               (config\<lparr>AppConfig.PromptPath := envPromptPath\<rparr>,
                print_err (''Using template path from environment: '' @ envPromptPath @ [NL]) t)
             else (config, t));
          envModelName = os_Getenv w ''LAZYCOMMIT_MODEL'';
          (config, t) =
            (if envModelName \<noteq> [] then
               (config\<lparr>AppConfig.ModelName := envModelName\<rparr>,
                print_err (''Using model from environment: '' @ envModelName @ [NL]) t)
             else (config, t))
      in (config, t))"

definition loadConfig :: "world \<Rightarrow> io \<Rightarrow> (AppConfig \<times> string option) \<times> io" where
  "loadConfig w t =
     (let config = DefaultConfig
      in case os_UserHomeDir w of
           Inl err \<Rightarrow> ((config, Some (''could not determine home directory: '' @ err)), t)
         | Inr homeDir \<Rightarrow>
             (case try_config_paths w (configPaths w homeDir) config t of
                ((config, Some err, configLoaded), t) \<Rightarrow> ((config, Some err), t)
              | ((config, None, configLoaded), t) \<Rightarrow>
                  (let t = (if \<not> configLoaded then
                              print_err (''No configuration file found, using defaults'' @ [NL]) t
                            else t)
                   in case env_overrides w config t of (config, t) \<Rightarrow> ((config, None), t))))"

section \<open>generateCommitMessage\<close>

text \<open>
  The last part of \<open>generateCommitMessage\<close>: the \<open>llm\<close> subprocess reads the diff on its
  standard input and writes straight to the program's standard output and standard error;
  the function returns what \<open>Run\<close> returns.
\<close>

definition run_llm :: "world \<Rightarrow> Config \<Rightarrow> string \<Rightarrow> string \<Rightarrow> io \<Rightarrow> unit outcome \<times> io" where
  "run_llm w config prompt truncatedDiff t =
     (case (if Config.ModelName config \<noteq> [] then
              ([''-m'', Config.ModelName config, ''-s'', prompt],
               print_err (''Using model: '' @ Config.ModelName config @ [NL]) t)
            else ([''-s'', prompt], print_err (''Using default llm model'' @ [NL]) t)) of
        (args, t) \<Rightarrow>
          (let r = exec_Run w ''llm'' args truncatedDiff;
               t = started ''llm'' args truncatedDiff t;
               t = print_err (proc_stderr r) (print_out (proc_stdout r) t)
           in (case proc_error r of None \<Rightarrow> Ok () | Some err \<Rightarrow> Err err, t)))"

definition tokenize_warning :: "string \<Rightarrow> string" where
  "tokenize_warning err = ''Warning: Failed to tokenize diff: '' @ err @ ''. Using raw diff.'' @ [NL]"

definition generateCommitMessage :: "world \<Rightarrow> Config \<Rightarrow> io \<Rightarrow> unit outcome \<times> io" where
  "generateCommitMessage w config t =
     (case getBranchName w (IsGit config) t of
        (branch, t) \<Rightarrow>
          (let promptData = \<lparr>Branch = branch, PromptData.UserContext = Config.UserContext config\<rparr>
           in case renderPromptTemplate w (Config.PromptPath config) promptData t of
                (Inl err, t) \<Rightarrow> (Err (''failed to render prompt template: '' @ err), t)
              | (Inr prompt, t) \<Rightarrow>
                  (case getDiff w config t of
                     (Inl err, t) \<Rightarrow> (Err (''failed to get diff: '' @ err), t)
                   | (Inr diff, t) \<Rightarrow>
                       (case truncateDiff w diff (MaxDiffSize config) of
                          Panic msg \<Rightarrow> (Panic msg, t)
                        | Err err \<Rightarrow> run_llm w config prompt diff (print_err (tokenize_warning err) t)
                        | Ok truncatedDiff \<Rightarrow> run_llm w config prompt truncatedDiff t))))"

section \<open>main\<close>

text \<open>How the process ends: with an exit status, or with an uncaught panic.\<close>

datatype exit = Exit nat | Crash string

definition red :: "string \<Rightarrow> string" where
  "red msg = ESC # ''[0;31m'' @ msg @ ESC # ''[0m'' @ [NL]"

text \<open>
  \<open>main\<close> from reading the user context to the end, given \<open>useGit\<close>: the configuration
  handed to \<open>generateCommitMessage\<close> is built by \<open>main_config\<close>.
\<close>

definition main_config :: "world \<Rightarrow> bool \<Rightarrow> io \<Rightarrow> Config \<times> io" where
  "main_config w useGit t =
     (let userContext = (if length (os_Args w) > 1 then os_Args w ! 1 else [])
      in case loadConfig w t of
           ((appConfig, err), t) \<Rightarrow>
             (case (case err of
                      Some e \<Rightarrow>
                        (DefaultConfig,
                         print_out (red (''Warning: Error loading configuration: '' @ e
                                           @ ''. Using defaults.'')) t)
                    | None \<Rightarrow> (appConfig, t)) of
                (appConfig, t) \<Rightarrow>
                  (\<lparr>MaxDiffSize = MaxDiffTokens appConfig,
                    Config.PromptPath = AppConfig.PromptPath appConfig,
                    Config.UserContext = userContext,
                    IsGit = useGit,
                    Config.ModelName = AppConfig.ModelName appConfig\<rparr>, t)))"

definition main_generate :: "world \<Rightarrow> bool \<Rightarrow> io \<Rightarrow> exit \<times> io" where
  "main_generate w useGit t =
     (case main_config w useGit t of
        (config, t) \<Rightarrow>
          (let t = (if useGit then print_err (''Using Git for version control'' @ [NL]) t
                    else print_err (''Using Jujutsu for version control'' @ [NL]) t)
           in case generateCommitMessage w config t of
                (Ok _, t) \<Rightarrow> (Exit 0, t)
              | (Err err, t) \<Rightarrow> (Exit 1, print_out (red (''Error: '' @ err)) t)
              | (Panic msg, t) \<Rightarrow> (Crash msg, t)))"

definition main :: "world \<Rightarrow> exit \<times> io" where
  "main w =
     (if \<not> commandExists w ''llm'' then
        (Exit 1,
         print_out (red (''Error: '' @ [CHR 0x27] @ ''llm'' @ [CHR 0x27]
                           @ '' command is not installed. Please install it and try again.''))
           io_init)
      else
        (case isGitRepo w io_init of
           (isGit, t) \<Rightarrow>
             (case isJJRepo w t of
                (isJJ, t) \<Rightarrow>
                  if \<not> isGit \<and> \<not> isJJ then
                    (Exit 1,
                     print_out (red ''Error: Neither Git nor Jujutsu repository detected.'') t)
                  else
                    (let useGit = isGit \<and> \<not> isJJ
                     in main_generate w useGit t))))"

section \<open>The default prompt, rendered\<close>

text \<open>
  The text of \<open>DefaultPromptTemplate\<close> before, between and after its two field actions, and
  the prompt obtained by putting the branch name and the user context in their place.
\<close>

definition default_head :: string where
  "default_head =
     ''You are an expert programmer helping to write concise, informative git commit messages. '' @ [NL] @
     ''The user will provide you with a git diff, and you will respond with ONLY a commit message.'' @ [NL] @
     [NL] @
     ''Here are the characteristics of a good commit message:'' @ [NL] @
     ''- Start with a short summary line (50-72 characters)'' @ [NL] @
     ''- Use the imperative mood ('' @ [CHR 0x22] @ ''Add feature'' @ [CHR 0x22] @ '' not '' @ [CHR 0x22] @ ''Added feature'' @ [CHR 0x22] @ '')'' @ [NL] @
     ''- Optionally include a more detailed explanatory paragraph after the summary, separated by a blank line'' @ [NL] @
     ''- Explain WHAT changed and WHY, but not HOW (that'' @ [CHR 0x27] @ ''s in the diff)'' @ [NL] @
     ''- Reference relevant issue numbers if applicable (e.g. '' @ [CHR 0x22] @ ''Fixes #123'' @ [CHR 0x22] @ '')'' @ [NL] @
     [NL] @
     ''Current branch: ''"

definition default_mid :: string where
  "default_mid =
     [NL] @
     ''User context: ''"

definition default_tail :: string where
  "default_tail =
     [NL] @
     [NL] @
     ''Respond with ONLY the commit message, no additional explanations, introductions, or notes.''"

definition rendered_default :: "PromptData \<Rightarrow> string" where
  "rendered_default data =
     default_head @ Branch data @ default_mid @ PromptData.UserContext data @ default_tail"

section \<open>The token budget, as resolved\<close>

text \<open>
  The precedence among the sources of the token budget, written out: the environment
  variable counts when \<open>strconv.Atoi\<close> accepts its value (an unset variable reads as the
  empty text, which it does not accept); the configuration file is the first of the two
  paths that exists; and when the home directory is unknown or that file does not decode,
  the run continues on the defaults alone.
\<close>

definition env_budget :: "world \<Rightarrow> int \<Rightarrow> int" where
  "env_budget w other =
     (case Atoi (os_Getenv w ''LAZYCOMMIT_MAX_TOKENS'') of Some n \<Rightarrow> n | None \<Rightarrow> other)"

definition resolved_budget :: "world \<Rightarrow> int" where
  "resolved_budget w =
     (case os_UserHomeDir w of
        Inl err \<Rightarrow> 12500
      | Inr homeDir \<Rightarrow>
          (case find (fileExists w) (configPaths w homeDir) of
             None \<Rightarrow> env_budget w 12500
           | Some path \<Rightarrow>
               (case toml_DecodeFile w path of
                  (doc, Some err) \<Rightarrow> 12500
                | (doc, None) \<Rightarrow>
                    env_budget w (case max_diff_tokens doc of Some n \<Rightarrow> n | None \<Rightarrow> 12500))))"

section \<open>The arguments of the llm command\<close>

text \<open>
  The arguments with which \<open>generateCommitMessage\<close> starts \<open>llm\<close>: the model flag only when a
  model name is configured, then the prompt as the system instruction.
\<close>

definition llm_args :: "Config \<Rightarrow> string \<Rightarrow> string list" where
  "llm_args config prompt =
     (if Config.ModelName config \<noteq> [] then [''-m'', Config.ModelName config, ''-s'', prompt]
      else [''-s'', prompt])"

section \<open>What a line of .gitattributes contributes\<close>

text \<open>
  The body of the scan loop, for one line: the patterns it appends to the list.
\<close>

definition line_patterns :: "string \<Rightarrow> string list" where
  "line_patterns line =
     (let matches = FindStringSubmatch line in if length matches > 1 then [matches ! 1] else [])"

section \<open>Concrete worlds\<close>

text \<open>
  Inputs on which the definitions above are run. \<open>byte_codec\<close> is a tokenizer with one
  token per byte; it stands in for the tokenizer library in runs whose outcome does not
  depend on how the text is split. \<open>git_world\<close> is a Git working copy with staged changes on a machine
  without Jujutsu: no configuration file, no environment overrides, no \<open>.gitattributes\<close>,
  and an \<open>llm\<close> command that answers with one line.
\<close>

definition byte_codec :: Codec where
  "byte_codec = \<lparr>Encode = (\<lambda>s. Inr (map of_char s)), Decode = (\<lambda>ts. Inr (map char_of ts))\<rparr>"

definition proc_ok :: "string \<Rightarrow> proc_result" where
  "proc_ok out = \<lparr>proc_stdout = out, proc_stderr = [], proc_error = None\<rparr>"

definition proc_failed :: "string \<Rightarrow> string \<Rightarrow> proc_result" where
  "proc_failed out err = \<lparr>proc_stdout = out, proc_stderr = [], proc_error = Some err\<rparr>"

fun join_slash :: "string list \<Rightarrow> string" where
  "join_slash [] = []"
| "join_slash [p] = p"
| "join_slash (p # ps) = p @ ''/'' @ join_slash ps"

definition no_keys :: toml_doc where
  "no_keys = \<lparr>max_diff_tokens = None, prompt_path = None, model_name = None\<rparr>"

definition git_world :: world where
  "git_world =
     \<lparr>os_Args = [''lazycommit''],
      os_Getenv = (\<lambda>name. []),
      os_UserHomeDir = Inr ''/home/dev'',
      os_Stat = (\<lambda>path. path = ''.git''),
      os_ReadFile = (\<lambda>path. Inl ''no such file or directory''),
      os_Open = (\<lambda>path. Inl ''no such file or directory''),
      filepath_Join = join_slash,
      strings_TrimSpace = (\<lambda>s. rev (dropWhile is_space (rev (dropWhile is_space s)))),
      exec_LookPath = (\<lambda>cmd. cmd = ''llm'' \<or> cmd = ''git''),
      exec_Run =
        (\<lambda>name args input.
           if name = ''git'' then
             (if take 1 args = [''diff''] then proc_ok ''+hello world'' else proc_ok (''main'' @ [NL]))
           else if name = ''llm'' then proc_ok (''Add greeting'' @ [NL])
           else proc_failed [] ''executable file not found in $PATH''),
      toml_DecodeFile = (\<lambda>path. (no_keys, Some ''no such file or directory'')),
      tokenizer_Get = Inr byte_codec,
      template_parse_error = (\<lambda>tmplContent. Some ''unexpected action''),
      template_execute = (\<lambda>tmplContent data. Inl ''cannot evaluate'')\<rparr>"

text \<open>
  \<open>both_world\<close>: the same working copy with Jujutsu installed and a Jujutsu repository
  alongside the Git one. \<open>with_env\<close> sets the token-budget variable; \<open>with_config\<close> puts a
  configuration file at the first path searched, with the given outcome of decoding it.
\<close>

definition both_world :: world where
  "both_world =
     git_world\<lparr>exec_Run :=
       (\<lambda>name args input.
          if name = ''jj'' then
            (if take 1 args = [''diff''] then proc_ok ''+hello world''
             else if take 1 args = [''log''] then proc_ok (''feature'' @ [NL])
             else proc_ok [])
          else exec_Run git_world name args input)\<rparr>"

definition with_env :: "string \<Rightarrow> world \<Rightarrow> world" where
  "with_env v w =
     w\<lparr>os_Getenv := (\<lambda>name. if name = ''LAZYCOMMIT_MAX_TOKENS'' then v else [])\<rparr>"

definition with_config :: "toml_doc \<times> string option \<Rightarrow> world \<Rightarrow> world" where
  "with_config decoded w =
     w\<lparr>os_Stat := (\<lambda>path. path = ''.git'' \<or> path = ''/home/dev/.config/lazycommit/config.toml''),
       toml_DecodeFile := (\<lambda>path. decoded)\<rparr>"

definition broken_config_world :: world where
  "broken_config_world =
     with_env ''100''
       (with_config (no_keys, Some ''toml: line 1: expected key separator'') git_world)"

definition bad_env_world :: world where
  "bad_env_world =
     with_env ''12k'' (with_config (no_keys\<lparr>max_diff_tokens := Some 500\<rparr>, None) git_world)"

definition env_and_config_world :: world where
  "env_and_config_world =
     with_env ''100'' (with_config (no_keys\<lparr>max_diff_tokens := Some 500\<rparr>, None) git_world)"

text \<open>
  \<open>no_tokenizer_world\<close>: the tokenizer cannot be obtained. \<open>failing_llm_world\<close>: the \<open>llm\<close>
  command writes the beginning of a message and then exits with status 1. The remaining
  definitions name what the program has done after each step of \<open>generateCommitMessage\<close> in
  these worlds, with the default configuration of a Git run.
\<close>

definition no_tokenizer_world :: world where
  "no_tokenizer_world = git_world\<lparr>tokenizer_Get := Inl ''unknown encoding''\<rparr>"

definition failing_llm_world :: world where
  "failing_llm_world =
     git_world\<lparr>exec_Run :=
       (\<lambda>name args input.
          if name = ''llm'' then proc_failed ''Add gre'' ''exit status 1''
          else exec_Run git_world name args input)\<rparr>"

definition default_git_config :: Config where
  "default_git_config =
     \<lparr>MaxDiffSize = 12500, Config.PromptPath = [], Config.UserContext = [], IsGit = True,
      Config.ModelName = []\<rparr>"

definition git_branch_io :: "io \<Rightarrow> io" where
  "git_branch_io t = started ''git'' [''rev-parse'', ''--abbrev-ref'', ''HEAD''] [] t"

definition git_prompt_io :: "io \<Rightarrow> io" where
  "git_prompt_io t = print_err (''Using default embedded template'' @ [NL]) (git_branch_io t)"

definition git_diff_io :: "io \<Rightarrow> io" where
  "git_diff_io t =
     started ''git''
       [''diff'', ''--cached'', ''--'', ''.'', '':(exclude)pnpm-lock.yaml'',
        '':(exclude)yarn.lock'', '':(exclude)package-lock.json''] [] (git_prompt_io t)"

definition failed_llm_io :: "io \<Rightarrow> io" where
  "failed_llm_io t =
     print_out ''Add gre''
       (started ''llm''
          [''-s'', rendered_default \<lparr>Branch = ''main'', PromptData.UserContext = []\<rparr>]
          ''+hello world''
          (print_err (''Using default llm model'' @ [NL]) (git_diff_io t)))"

text \<open>
  \<open>with_gitattributes\<close> puts a \<open>.gitattributes\<close> file with the given content into the working
  copy. \<open>attributes_world\<close> has a comment, two generated-file lines and a line without the
  attribute; \<open>lock_attributes_world\<close> marks one of the lock files as generated.
\<close>

definition with_gitattributes :: "string \<Rightarrow> world \<Rightarrow> world" where
  "with_gitattributes content w =
     w\<lparr>os_Stat := (\<lambda>path. path = ''.git'' \<or> path = ''.gitattributes''),
       os_Open := (\<lambda>path. if path = ''.gitattributes''
                            then Inr \<lparr>file_data = content, read_error = None\<rparr>
                            else Inl ''no such file or directory'')\<rparr>"

definition attributes_text :: string where
  "attributes_text =
     ''# generated files'' @ [NL] @
     ''*.pb.go linguist-generated=true'' @ [NL] @
     ''README.md text'' @ [NL] @
     ''generated.go linguist-generated=true'' @ [NL]"

definition attributes_world :: world where
  "attributes_world = with_gitattributes attributes_text git_world"

definition lock_attributes_world :: world where
  "lock_attributes_world =
     with_gitattributes (''yarn.lock linguist-generated=true'' @ [NL]) git_world"

text \<open>
  The configuration of a Jujutsu run with the defaults, and what the program has done
  after \<open>generateCommitMessage\<close> in \<open>both_world\<close>.
\<close>

definition jj_config :: Config where
  "jj_config = default_git_config\<lparr>IsGit := False\<rparr>"

definition jj_run_io :: "io \<Rightarrow> io" where
  "jj_run_io t =
     print_out (''Add greeting'' @ [NL])
       (started ''llm''
          [''-s'', rendered_default \<lparr>Branch = ''feature'', PromptData.UserContext = []\<rparr>]
          ''+hello world''
          (print_err (''Using default llm model'' @ [NL])
             (started ''jj''
                [''diff'', ''--git'', ''~pnpm-lock.yaml'', ''~yarn.lock'', ''~package-lock.json'']
                []
                (print_err (''Using default embedded template'' @ [NL])
                   (started ''jj''
                      [''log'', ''--no-graph'', ''-T'', ''local_bookmarks'', ''--limit'', ''1'']
                      [] t)))))"

text \<open>
  \<open>cl100k_table\<close> tabulates the Cl100kBase tokenizer on the two texts of the truncation
  example: it splits \<open>hello world foo bar baz\<close> into five tokens, of which the first two
  decode to \<open>hello world\<close>, and it splits that text followed by the notice for two tokens
  into sixteen tokens. A token is written as its position in these splits, not as its rank
  in the vocabulary: \<open>truncateDiff\<close> counts tokens and decodes a prefix of them, and never
  reads a token's number. Any other text or token list is outside the table.
  \<open>cl100k_world\<close> is \<open>git_world\<close> with this tokenizer.
\<close>

definition cl100k_table :: Codec where
  "cl100k_table =
     \<lparr>Encode =
        (\<lambda>s. if s = ''hello world foo bar baz'' then Inr [0, 1, 2, 3, 4]
             else if s = ''hello world'' @ [NL, NL]
                         @ ''[Diff truncated due to size - showing first 2 tokens]''
             then Inr [0, 1, 5, 6, 7, 8, 9, 10, 11, 12, 13, 14, 15, 16, 17, 18]
             else Inl ''text outside the table''),
      Decode =
        (\<lambda>ts. if ts = [0, 1] then Inr ''hello world''
              else Inl ''tokens outside the table'')\<rparr>"

definition cl100k_world :: world where
  "cl100k_world = git_world\<lparr>tokenizer_Get := Inr cl100k_table\<rparr>"

section \<open>Properties of truncateDiff\<close>

lemma slice_to_prefix:
  "0 \<le> n \<Longrightarrow> n \<le> int (length xs) \<Longrightarrow> slice_to xs n = Some (take (nat n) xs)"
  by (simp add: slice_to_def)

lemma slice_to_negative: "n < 0 \<Longrightarrow> slice_to xs n = None"
  by (simp add: slice_to_def)

text \<open>
  Claim C4. A diff whose token count is at most \<open>maxTokens\<close> is returned exactly as it was
  given: whenever the tokenizer is available and encodes the diff to no more than
  \<open>maxTokens\<close> tokens, \<open>truncateDiff\<close> returns the input text.
\<close>

theorem truncateDiff_within_budget:
  assumes "tokenizer_Get w = Inr enc"
    and "Encode enc diff = Inr tokens"
    and "int (length tokens) \<le> maxTokens"
  shows "truncateDiff w diff maxTokens = Ok diff"
  using assms by (simp add: truncateDiff_def)

theorem truncateDiff_within_budget_witness:
  "tokenizer_Get git_world = Inr byte_codec
   \<and> Encode byte_codec ''+hello'' = Inr [43, 104, 101, 108, 108, 111]
   \<and> int (length [43, 104, 101, 108, 108, 111 :: token]) \<le> 6
   \<and> truncateDiff git_world ''+hello'' 6 = Ok ''+hello''"
proof -
  have g: "tokenizer_Get git_world = Inr byte_codec"
    by (simp add: git_world_def)
  have e: "Encode byte_codec ''+hello'' = Inr [43, 104, 101, 108, 108, 111]"
    by (simp add: byte_codec_def)
  have l: "int (length [43, 104, 101, 108, 108, 111 :: token]) \<le> 6"
    by simp
  from truncateDiff_within_budget [OF g e l] g e l show ?thesis
    by simp
qed

text \<open>
  Claim C9. With a negative \<open>maxTokens\<close> and a diff of at least one token, the size check
  does not return, the slice \<open>tokens[:maxTokens]\<close> is out of bounds, and the call panics
  rather than returning an error value.
\<close>

theorem truncateDiff_negative_budget_panics:
  assumes "tokenizer_Get w = Inr enc"
    and "Encode enc diff = Inr tokens"
    and "1 \<le> length tokens"
    and "maxTokens < 0"
  shows "truncateDiff w diff maxTokens = Panic ''slice bounds out of range''"
  using assms by (simp add: truncateDiff_def slice_to_negative)

theorem truncateDiff_negative_budget_panics_witness:
  "tokenizer_Get git_world = Inr byte_codec
   \<and> Encode byte_codec ''+hello'' = Inr [43, 104, 101, 108, 108, 111]
   \<and> 1 \<le> length [43, 104, 101, 108, 108, 111 :: token]
   \<and> (- 1 :: int) < 0
   \<and> truncateDiff git_world ''+hello'' (- 1) = Panic ''slice bounds out of range''"
proof -
  have g: "tokenizer_Get git_world = Inr byte_codec"
    by (simp add: git_world_def)
  have e: "Encode byte_codec ''+hello'' = Inr [43, 104, 101, 108, 108, 111]"
    by (simp add: byte_codec_def)
  have l: "1 \<le> length [43, 104, 101, 108, 108, 111 :: token]"
    by simp
  have n: "(- 1 :: int) < 0"
    by simp
  from truncateDiff_negative_budget_panics [OF g e l n] g e l n show ?thesis
    by simp
qed

text \<open>The other half of the precondition: with \<open>maxTokens \<ge> 0\<close> the call never panics.\<close>

lemma truncateDiff_no_panic:
  assumes "0 \<le> maxTokens"
  shows "truncateDiff w diff maxTokens \<noteq> Panic msg"
  using assms
  by (auto simp: truncateDiff_def slice_to_def split: sum.splits)

text \<open>
  Claim C1, as amended. For a diff whose token count exceeds \<open>maxTokens \<ge> 0\<close> and whose
  first \<open>maxTokens\<close> tokens decode, \<open>truncateDiff\<close> returns the decoded text of exactly those
  \<open>maxTokens\<close> tokens followed by the truncation notice that states \<open>maxTokens\<close>. The bound is on
  the tokens kept from the diff; the notice is appended after it has been applied.
\<close>

theorem truncateDiff_over_budget:
  assumes "tokenizer_Get w = Inr enc"
    and "Encode enc diff = Inr tokens"
    and "maxTokens < int (length tokens)"
    and "0 \<le> maxTokens"
    and "Decode enc (take (nat maxTokens) tokens) = Inr kept"
  shows "truncateDiff w diff maxTokens =
           Ok (kept @ [NL, NL] @ ''[Diff truncated due to size - showing first ''
                 @ Sprintf_d maxTokens @ '' tokens]'')
         \<and> int (length (take (nat maxTokens) tokens)) = maxTokens"
  using assms by (simp add: truncateDiff_def slice_to_prefix truncation_notice_def)

theorem truncateDiff_over_budget_witness:
  "tokenizer_Get cl100k_world = Inr cl100k_table
   \<and> Encode cl100k_table ''hello world foo bar baz'' = Inr [0, 1, 2, 3, 4]
   \<and> (2 :: int) < int (length [0, 1, 2, 3, 4 :: token])
   \<and> (0 :: int) \<le> 2
   \<and> Decode cl100k_table (take (nat 2) [0, 1, 2, 3, 4]) = Inr ''hello world''
   \<and> truncateDiff cl100k_world ''hello world foo bar baz'' 2 =
        Ok (''hello world'' @ [NL, NL]
              @ ''[Diff truncated due to size - showing first 2 tokens]'')
   \<and> int (length (take (nat 2) [0, 1, 2, 3, 4 :: token])) = 2"
proof -
  have g: "tokenizer_Get cl100k_world = Inr cl100k_table"
    by (simp add: cl100k_world_def)
  have e: "Encode cl100k_table ''hello world foo bar baz'' = Inr [0, 1, 2, 3, 4]"
    by (simp add: cl100k_table_def)
  have l: "(2 :: int) < int (length [0, 1, 2, 3, 4 :: token])"
    by simp
  have n: "(0 :: int) \<le> 2"
    by simp
  have d: "Decode cl100k_table (take (nat 2) [0, 1, 2, 3, 4]) = Inr ''hello world''"
    by (simp add: cl100k_table_def)
  have s: "Sprintf_d 2 = ''2''"
    by (simp add: Sprintf_d_def Itoa_nat.simps)
  from truncateDiff_over_budget [OF g e l n d] g e l n d s show ?thesis
    by simp
qed

text \<open>
  The claim as first stated asks for the returned text to re-encode to at most \<open>maxTokens\<close>
  tokens. Under Cl100kBase the diff \<open>hello world foo bar baz\<close> has five tokens; with a
  budget of two the text returned is \<open>hello world\<close> followed by the notice, and it
  re-encodes to sixteen tokens: the two kept from the diff and fourteen for the notice.
\<close>

theorem truncateDiff_exceeds_budget:
  "truncateDiff cl100k_world ''hello world foo bar baz'' 2
     = Ok (''hello world'' @ [NL, NL]
             @ ''[Diff truncated due to size - showing first 2 tokens]'')
   \<and> map_sum id length
        (Encode cl100k_table
           (''hello world'' @ [NL, NL]
              @ ''[Diff truncated due to size - showing first 2 tokens]''))
     = Inr 16"
  by code_simp

text \<open>
  At a budget of zero the bound fails for every tokenizer that decodes the empty token list
  to the empty text and decodes an encoding of the returned text back to that text: the
  returned text is then the notice alone, which takes at least one token.
\<close>

lemma truncateDiff_zero_budget_exceeded:
  assumes get: "tokenizer_Get w = Inr enc"
    and enc: "Encode enc diff = Inr tokens"
    and nonempty: "tokens \<noteq> []"
    and empty: "Decode enc [] = Inr []"
    and result: "truncateDiff w diff 0 = Ok r"
    and again: "Encode enc r = Inr ts"
    and lossless: "Decode enc ts = Inr r"
  shows "0 < length ts"
proof (rule ccontr)
  assume "\<not> 0 < length ts"
  then have "ts = []"
    by simp
  with empty lossless have "r = []"
    by simp
  moreover from get enc nonempty empty result have "r = truncation_notice 0"
    by (simp add: truncateDiff_def slice_to_def)
  ultimately show False
    by (simp add: truncation_notice_def)
qed

section \<open>Properties of renderPromptTemplate\<close>

lemma DefaultPromptTemplate_parts:
  "DefaultPromptTemplate =
     default_head @ ''{{.Branch}}'' @ default_mid @ ''{{.UserContext}}'' @ default_tail"
  by (simp add: DefaultPromptTemplate_def default_head_def default_mid_def default_tail_def)

lemma parse_fields_text:
  "CHR ''{'' \<notin> set s \<Longrightarrow>
     parse_fields (s @ r) = map_option (\<lambda>nodes. map TextNode s @ nodes) (parse_fields r)"
  by (induction s) (cases "parse_fields r"; simp)+

lemma parse_fields_Branch:
  "parse_fields (''{{.Branch}}'' @ r) = map_option (Cons BranchField) (parse_fields r)"
  by simp

lemma parse_fields_UserContext:
  "parse_fields (''{{.UserContext}}'' @ r) = map_option (Cons UserContextField) (parse_fields r)"
  by simp

lemma exec_text: "concat (map (exec_node data \<circ> TextNode) s) = s"
  by (induction s) auto

lemma no_brace_head: "CHR ''{'' \<notin> set default_head"
  by (simp add: default_head_def)

lemma no_brace_mid: "CHR ''{'' \<notin> set default_mid"
  by (simp add: default_mid_def)

lemma no_brace_tail: "CHR ''{'' \<notin> set default_tail"
  by (simp add: default_tail_def)

lemma parse_default:
  "parse_fields DefaultPromptTemplate =
     Some (map TextNode default_head @ BranchField # map TextNode default_mid
           @ UserContextField # map TextNode default_tail)"
proof -
  have "parse_fields (default_tail @ []) = Some (map TextNode default_tail)"
    by (simp only: parse_fields_text [OF no_brace_tail]) simp
  then have t: "parse_fields default_tail = Some (map TextNode default_tail)"
    by simp
  show ?thesis
    unfolding DefaultPromptTemplate_parts
    by (simp only: parse_fields_text [OF no_brace_head] parse_fields_text [OF no_brace_mid]
        parse_fields_Branch parse_fields_UserContext t) simp
qed

lemma template_default:
  "template_Parse w DefaultPromptTemplate =
     Inr (Fields (map TextNode default_head @ BranchField # map TextNode default_mid
           @ UserContextField # map TextNode default_tail))"
  by (simp add: template_Parse_def parse_default)

lemma renderPromptTemplate_default:
  assumes "templatePath = [] \<or> \<not> fileExists w templatePath"
  shows "renderPromptTemplate w templatePath data t =
           (Inr (rendered_default data), print_err (''Using default embedded template'' @ [NL]) t)"
  using assms
  by (auto simp: renderPromptTemplate_def template_default exec_text rendered_default_def)

text \<open>
  Claim C10. A template path that is empty or names no existing file is never an error:
  for every \<open>PromptData\<close>, \<open>renderPromptTemplate\<close> succeeds with the embedded default
  template rendered with that data, exactly as when no path is given.
\<close>

theorem renderPromptTemplate_missing_file:
  assumes "templatePath = [] \<or> \<not> fileExists w templatePath"
  shows "renderPromptTemplate w templatePath data t =
           (Inr (rendered_default data), print_err (''Using default embedded template'' @ [NL]) t)
         \<and> renderPromptTemplate w templatePath data t = renderPromptTemplate w [] data t"
  using renderPromptTemplate_default [OF assms] renderPromptTemplate_default [of "[]" w data t]
  by simp

theorem renderPromptTemplate_missing_file_witness:
  "(''/home/dev/prompt.tmpl'' = [] \<or> \<not> fileExists git_world ''/home/dev/prompt.tmpl'')
   \<and> renderPromptTemplate git_world ''/home/dev/prompt.tmpl''
         \<lparr>Branch = ''main'', PromptData.UserContext = ''fix login''\<rparr> io_init =
       (Inr (rendered_default \<lparr>Branch = ''main'', PromptData.UserContext = ''fix login''\<rparr>),
        print_err (''Using default embedded template'' @ [NL]) io_init)
   \<and> renderPromptTemplate git_world ''/home/dev/prompt.tmpl''
         \<lparr>Branch = ''main'', PromptData.UserContext = ''fix login''\<rparr> io_init =
       renderPromptTemplate git_world []
         \<lparr>Branch = ''main'', PromptData.UserContext = ''fix login''\<rparr> io_init"
proof -
  have h: "''/home/dev/prompt.tmpl'' = [] \<or> \<not> fileExists git_world ''/home/dev/prompt.tmpl''"
    by (simp add: fileExists_def git_world_def)
  from renderPromptTemplate_missing_file [OF h] h show ?thesis
    by blast
qed

section \<open>What the steps do to the output and the process list\<close>

lemma spawned_print [simp]:
  "spawned (print_err s t) = spawned t" "spawned (print_out s t) = spawned t"
  by (simp_all add: print_err_def print_out_def)

lemma spawned_started [simp]:
  "spawned (started name args input t) = spawned t @ [(name, args, input)]"
  by (simp add: started_def)

lemma stdout_print [simp]:
  "stdout (print_err s t) = stdout t" "stdout (print_out s t) = stdout t @ s"
  "stdout (started name args input t) = stdout t"
  by (simp_all add: print_err_def print_out_def started_def)

lemma stderr_print [simp]:
  "stderr (print_err s t) = stderr t @ s" "stderr (print_out s t) = stderr t"
  "stderr (started name args input t) = stderr t"
  by (simp_all add: print_err_def print_out_def started_def)

lemma cmd_Output_spawned:
  "cmd_Output w name args t = (r, t') \<Longrightarrow> spawned t' = spawned t @ [(name, args, [])]"
  by (auto simp: cmd_Output_def Let_def)

lemma cmd_Output_stdout:
  "cmd_Output w name args t = (r, t') \<Longrightarrow> stdout t' = stdout t"
  by (auto simp: cmd_Output_def Let_def)

lemma getBranchName_spawned:
  "getBranchName w isGit t = (b, t') \<Longrightarrow>
     \<exists>args. spawned t' = spawned t @ [(if isGit then ''git'' else ''jj'', args, [])]"
  by (auto simp: getBranchName_def split: if_splits prod.splits sum.splits
      dest!: cmd_Output_spawned)

lemma getBranchName_stdout:
  "getBranchName w isGit t = (b, t') \<Longrightarrow> stdout t' = stdout t"
  by (auto simp: getBranchName_def split: if_splits prod.splits sum.splits
      dest!: cmd_Output_stdout)

lemma renderPromptTemplate_spawned:
  "renderPromptTemplate w p d t = (r, t') \<Longrightarrow> spawned t' = spawned t"
  by (auto simp: renderPromptTemplate_def split: if_splits prod.splits sum.splits)

lemma renderPromptTemplate_stdout:
  "renderPromptTemplate w p d t = (r, t') \<Longrightarrow> stdout t' = stdout t"
  by (auto simp: renderPromptTemplate_def split: if_splits prod.splits sum.splits)

lemma getDiff_spawned:
  "getDiff w config t = (r, t') \<Longrightarrow>
     spawned t' = spawned t \<or>
     (\<exists>args. spawned t' = spawned t @ [(if IsGit config then ''git'' else ''jj'', args, [])])"
  by (auto simp: getDiff_def diffCommand_def split: if_splits prod.splits sum.splits
      dest!: cmd_Output_spawned)

lemma getDiff_stdout:
  "getDiff w config t = (r, t') \<Longrightarrow> stdout t' = stdout t"
  by (auto simp: getDiff_def split: prod.splits sum.splits dest!: cmd_Output_stdout)

lemma run_llm_spawned:
  "run_llm w config prompt input t = (r, t') \<Longrightarrow>
     \<exists>args. spawned t' = spawned t @ [(''llm'', args, input)]"
  by (auto simp: run_llm_def Let_def split: if_splits prod.splits)

lemma run_llm_result:
  "run_llm w config prompt input t = (r, t') \<Longrightarrow>
     r = (case proc_error (exec_Run w ''llm'' (llm_args config prompt) input) of
            None \<Rightarrow> Ok () | Some err \<Rightarrow> Err err)
     \<and> spawned t' = spawned t @ [(''llm'', llm_args config prompt, input)]
     \<and> stdout t' = stdout t @ proc_stdout (exec_Run w ''llm'' (llm_args config prompt) input)
     \<and> prefix (stderr t) (stderr t')"
  by (auto simp: run_llm_def llm_args_def Let_def split: if_splits)

lemma try_config_paths_spawned:
  "try_config_paths w paths config t = (r, t') \<Longrightarrow> spawned t' = spawned t"
  by (induction paths) (auto split: if_splits prod.splits option.splits)

lemma env_overrides_spawned:
  "env_overrides w config t = (config', t') \<Longrightarrow> spawned t' = spawned t"
  by (auto simp: env_overrides_def Let_def split: if_splits option.splits)

lemma loadConfig_spawned:
  "loadConfig w t = (r, t') \<Longrightarrow> spawned t' = spawned t"
  by (auto simp: loadConfig_def Let_def split: sum.splits prod.splits option.splits if_splits
      dest!: try_config_paths_spawned env_overrides_spawned)

lemma main_config_spawned:
  "main_config w useGit t = (config, t') \<Longrightarrow> spawned t' = spawned t"
  by (auto simp: main_config_def Let_def split: prod.splits option.splits
      dest!: loadConfig_spawned)

section \<open>Properties of generateCommitMessage\<close>

lemma generateCommitMessage_steps:
  assumes "getBranchName w (IsGit config) t = (branch, t1)"
    and "renderPromptTemplate w (Config.PromptPath config)
           \<lparr>Branch = branch, PromptData.UserContext = Config.UserContext config\<rparr> t1
         = (Inr prompt, t2)"
    and "getDiff w config t2 = (Inr diff, t3)"
    and "truncateDiff w diff (MaxDiffSize config) = Ok truncatedDiff"
  shows "generateCommitMessage w config t = run_llm w config prompt truncatedDiff t3"
  using assms by (simp add: generateCommitMessage_def)

lemma generateCommitMessage_spawned:
  assumes "generateCommitMessage w config t = (r, t')"
  shows "\<forall>(name, args, input) \<in> set (drop (length (spawned t)) (spawned t')).
           name = (if IsGit config then ''git'' else ''jj'') \<or> name = ''llm''"
  using assms
  by (auto simp: generateCommitMessage_def Let_def
      split: prod.splits sum.splits outcome.splits
      dest!: getBranchName_spawned renderPromptTemplate_spawned getDiff_spawned run_llm_spawned)

text \<open>
  Claim C8. A tokenization failure does not end the run: when the branch, the prompt and
  the diff have been obtained and \<open>truncateDiff\<close> returns an error, \<open>generateCommitMessage\<close>
  prints the warning on standard error, starts \<open>llm\<close> with the original, untruncated diff
  on its standard input, and returns what the \<open>llm\<close> run returns.
\<close>

theorem tokenization_failure_not_fatal:
  assumes "getBranchName w (IsGit config) t = (branch, t1)"
    and "renderPromptTemplate w (Config.PromptPath config)
           \<lparr>Branch = branch, PromptData.UserContext = Config.UserContext config\<rparr> t1
         = (Inr prompt, t2)"
    and "getDiff w config t2 = (Inr diff, t3)"
    and "truncateDiff w diff (MaxDiffSize config) = Err err"
  shows "fst (generateCommitMessage w config t) =
           (case proc_error (exec_Run w ''llm'' (llm_args config prompt) diff) of
              None \<Rightarrow> Ok () | Some e \<Rightarrow> Err e)
         \<and> spawned (snd (generateCommitMessage w config t)) =
             spawned t3 @ [(''llm'', llm_args config prompt, diff)]
         \<and> prefix (stderr t3 @ ''Warning: Failed to tokenize diff: '' @ err
                      @ ''. Using raw diff.'' @ [NL])
             (stderr (snd (generateCommitMessage w config t)))"
proof -
  obtain r t' where g: "generateCommitMessage w config t = (r, t')"
    by (cases "generateCommitMessage w config t")
  with assms have "run_llm w config prompt diff (print_err (tokenize_warning err) t3) = (r, t')"
    by (simp add: generateCommitMessage_def)
  from run_llm_result [OF this] g show ?thesis
    by (simp add: tokenize_warning_def)
qed

theorem tokenization_failure_not_fatal_witness:
  "getBranchName no_tokenizer_world (IsGit default_git_config) io_init = (''main'', (git_branch_io io_init))
   \<and> renderPromptTemplate no_tokenizer_world (Config.PromptPath default_git_config)
         \<lparr>Branch = ''main'', PromptData.UserContext = Config.UserContext default_git_config\<rparr>
         (git_branch_io io_init)
       = (Inr (rendered_default \<lparr>Branch = ''main'', PromptData.UserContext = []\<rparr>),
          (git_prompt_io io_init))
   \<and> getDiff no_tokenizer_world default_git_config (git_prompt_io io_init)
       = (Inr ''+hello world'', (git_diff_io io_init))
   \<and> truncateDiff no_tokenizer_world ''+hello world'' (MaxDiffSize default_git_config)
       = Err ''failed to get tokenizer: unknown encoding''
   \<and> fst (generateCommitMessage no_tokenizer_world default_git_config io_init) = Ok ()
   \<and> spawned (snd (generateCommitMessage no_tokenizer_world default_git_config io_init))
       = spawned (git_diff_io io_init)
         @ [(''llm'',
             [''-s'', rendered_default \<lparr>Branch = ''main'', PromptData.UserContext = []\<rparr>],
             ''+hello world'')]
   \<and> prefix (stderr (git_diff_io io_init)
               @ ''Warning: Failed to tokenize diff: failed to get tokenizer: unknown encoding''
               @ ''. Using raw diff.'' @ [NL])
         (stderr (snd (generateCommitMessage no_tokenizer_world default_git_config io_init)))"
proof -
  have b: "getBranchName no_tokenizer_world (IsGit default_git_config) io_init
      = (''main'', (git_branch_io io_init))"
    by code_simp
  have p: "renderPromptTemplate no_tokenizer_world (Config.PromptPath default_git_config)
         \<lparr>Branch = ''main'', PromptData.UserContext = Config.UserContext default_git_config\<rparr>
         (git_branch_io io_init)
       = (Inr (rendered_default \<lparr>Branch = ''main'', PromptData.UserContext = []\<rparr>),
          (git_prompt_io io_init))"
    by (simp add: renderPromptTemplate_default default_git_config_def git_prompt_io_def)
  have d: "getDiff no_tokenizer_world default_git_config (git_prompt_io io_init)
       = (Inr ''+hello world'', (git_diff_io io_init))"
    by code_simp
  have e: "truncateDiff no_tokenizer_world ''+hello world'' (MaxDiffSize default_git_config)
       = Err ''failed to get tokenizer: unknown encoding''"
    by (simp add: truncateDiff_def no_tokenizer_world_def)
  have a: "llm_args default_git_config prompt = [''-s'', prompt]" for prompt
    by (simp add: llm_args_def default_git_config_def)
  have r: "proc_error (exec_Run no_tokenizer_world ''llm'' [''-s'', prompt] ''+hello world'') = None"
    for prompt
    by (simp add: no_tokenizer_world_def git_world_def proc_ok_def)
  from tokenization_failure_not_fatal [OF b p d e] b p d e show ?thesis
    by (simp add: a r)
qed

text \<open>
  Claim C3, as amended. \<open>generateCommitMessage\<close> itself writes nothing to standard output;
  the \<open>llm\<close> subprocess writes there directly. So when the function returns an error,
  standard output is either as it was (the error arose before \<open>llm\<close> was started) or
  extended by exactly what the \<open>llm\<close> subprocess had written when it failed, and the error
  is then the one that subprocess ended with.
\<close>

theorem failure_leaves_subprocess_output:
  assumes "generateCommitMessage w config t = (Err e, t')"
  shows "stdout t' = stdout t
         \<or> (\<exists>args input.
               last (spawned t') = (''llm'', args, input)
               \<and> proc_error (exec_Run w ''llm'' args input) = Some e
               \<and> stdout t' = stdout t @ proc_stdout (exec_Run w ''llm'' args input))"
  using assms
  by (auto simp: generateCommitMessage_def Let_def
      split: prod.splits sum.splits outcome.splits option.splits
      dest!: getBranchName_stdout renderPromptTemplate_stdout getDiff_stdout run_llm_result)

lemma failing_llm_run:
  "generateCommitMessage failing_llm_world default_git_config t
     = (Err ''exit status 1'', failed_llm_io t)"
proof -
  have b: "getBranchName failing_llm_world (IsGit default_git_config) t
      = (''main'', git_branch_io t)"
    by (simp add: getBranchName_def cmd_Output_def default_git_config_def failing_llm_world_def
        git_world_def proc_ok_def is_space_def git_branch_io_def)
  have p: "renderPromptTemplate failing_llm_world (Config.PromptPath default_git_config)
         \<lparr>Branch = ''main'', PromptData.UserContext = Config.UserContext default_git_config\<rparr>
         (git_branch_io t)
       = (Inr (rendered_default \<lparr>Branch = ''main'', PromptData.UserContext = []\<rparr>),
          git_prompt_io t)"
    by (simp add: renderPromptTemplate_default default_git_config_def git_prompt_io_def)
  have x: "excludePatterns failing_llm_world default_git_config = Inr commonExcludes"
    by (simp add: excludePatterns_def fileExists_def default_git_config_def
        failing_llm_world_def git_world_def)
  have d: "getDiff failing_llm_world default_git_config (git_prompt_io t)
      = (Inr ''+hello world'', git_diff_io t)"
    unfolding getDiff_def x
    by (simp add: diffCommand_def commonExcludes_def cmd_Output_def default_git_config_def
        failing_llm_world_def git_world_def proc_ok_def git_diff_io_def)
  have e: "truncateDiff failing_llm_world ''+hello world'' (MaxDiffSize default_git_config)
       = Ok ''+hello world''"
    by code_simp
  have r: "run_llm failing_llm_world default_git_config prompt ''+hello world'' (git_diff_io t)
      = (Err ''exit status 1'',
         print_out ''Add gre''
           (started ''llm'' [''-s'', prompt] ''+hello world''
              (print_err (''Using default llm model'' @ [NL]) (git_diff_io t))))" for prompt
    by (simp add: run_llm_def default_git_config_def failing_llm_world_def proc_failed_def
        print_err_def print_out_def started_def)
  show ?thesis
    unfolding generateCommitMessage_steps [OF b p d e] r failed_llm_io_def ..
qed

lemma stdout_failed_llm_io: "stdout (failed_llm_io t) = stdout t @ ''Add gre''"
  by (simp add: failed_llm_io_def git_diff_io_def git_prompt_io_def git_branch_io_def)

theorem failure_leaves_subprocess_output_witness:
  "generateCommitMessage failing_llm_world default_git_config io_init
     = (Err ''exit status 1'', failed_llm_io io_init)
   \<and> stdout (failed_llm_io io_init) \<noteq> stdout io_init
   \<and> (\<exists>args input.
          last (spawned (failed_llm_io io_init)) = (''llm'', args, input)
          \<and> proc_error (exec_Run failing_llm_world ''llm'' args input) = Some ''exit status 1''
          \<and> stdout (failed_llm_io io_init)
              = stdout io_init @ proc_stdout (exec_Run failing_llm_world ''llm'' args input))"
proof -
  have "stdout (failed_llm_io io_init) \<noteq> stdout io_init"
    by (simp add: stdout_failed_llm_io)
  with failure_leaves_subprocess_output [OF failing_llm_run [of io_init]] failing_llm_run [of io_init]
  show ?thesis
    by blast
qed

text \<open>
  The claim as first stated promises an empty standard output on every fatal failure. When
  \<open>llm\<close> has written the beginning of a message and then fails, the run exits with status 1
  and standard output holds that beginning, followed by the error message of \<open>main\<close>.
\<close>

theorem failed_run_leaves_partial_message:
  "fst (main failing_llm_world) = Exit 1
   \<and> stdout (snd (main failing_llm_world)) = ''Add gre'' @ red ''Error: exit status 1''"
proof -
  let ?t = "started ''jj'' [''status'', ''--quiet''] [] io_init"
  have l: "commandExists failing_llm_world ''llm''"
    by code_simp
  have g: "isGitRepo failing_llm_world io_init = (True, io_init)"
    by code_simp
  have j: "isJJRepo failing_llm_world io_init = (False, ?t)"
    by code_simp
  have c: "main_config failing_llm_world True ?t
      = (default_git_config,
         print_err (''No configuration file found, using defaults'' @ [NL]) ?t)"
    by code_simp
  have "main failing_llm_world = main_generate failing_llm_world True ?t"
    by (simp add: main_def l g j)
  also have "\<dots> = (Exit 1, print_out (red ''Error: exit status 1'')
      (failed_llm_io (print_err (''Using Git for version control'' @ [NL])
         (print_err (''No configuration file found, using defaults'' @ [NL]) ?t))))"
    by (simp add: main_generate_def c failing_llm_run)
  finally show ?thesis
    by (simp add: stdout_failed_llm_io io_init_def)
qed

section \<open>Properties of main\<close>

lemma main_config_IsGit:
  "IsGit (fst (main_config w useGit t)) = useGit"
  by (auto simp: main_config_def Let_def split: prod.splits option.splits)

lemma main_generate_spawned:
  assumes "main_generate w useGit t = (e, t')"
  shows "\<forall>(name, args, input) \<in> set (drop (length (spawned t)) (spawned t')).
           name = (if useGit then ''git'' else ''jj'') \<or> name = ''llm''"
proof -
  obtain config t0 where c: "main_config w useGit t = (config, t0)"
    by (cases "main_config w useGit t")
  then have g: "IsGit config = useGit" and s: "spawned t0 = spawned t"
    using main_config_IsGit [of w useGit t] main_config_spawned by auto
  define t1 where "t1 = (if useGit then print_err (''Using Git for version control'' @ [NL]) t0
                    else print_err (''Using Jujutsu for version control'' @ [NL]) t0)"
  obtain r t2 where m: "generateCommitMessage w config t1 = (r, t2)"
    by (cases "generateCommitMessage w config t1")
  have s1: "spawned t1 = spawned t"
    by (simp add: t1_def s)
  have "spawned t' = spawned t2"
    using assms c m by (auto simp: main_generate_def t1_def split: outcome.splits)
  with generateCommitMessage_spawned [OF m] g s1 show ?thesis
    by simp
qed

text \<open>
  Claim C7. Whatever the two detections report, as long as one of them succeeds \<open>main\<close>
  goes on with \<open>useGit\<close> true exactly when Git is detected and Jujutsu is not: that is the
  value of \<open>IsGit\<close> in the configuration handed on, and every subprocess started after the
  detection is \<open>llm\<close> or the selected tool. So when both repositories are detected the tool
  is \<open>jj\<close>, and \<open>git\<close> is run only when Git is detected and Jujutsu is not.
\<close>

theorem jujutsu_preferred:
  assumes "commandExists w ''llm''"
    and "isGitRepo w io_init = (isGit, t1)"
    and "isJJRepo w t1 = (isJJ, t2)"
    and "isGit \<or> isJJ"
  shows "main w = main_generate w (isGit \<and> \<not> isJJ) t2
         \<and> IsGit (fst (main_config w (isGit \<and> \<not> isJJ) t2)) = (isGit \<and> \<not> isJJ)
         \<and> (\<forall>(name, args, input) \<in> set (drop (length (spawned t2)) (spawned (snd (main w)))).
               name = (if isGit \<and> \<not> isJJ then ''git'' else ''jj'') \<or> name = ''llm'')"
proof -
  have m: "main w = main_generate w (isGit \<and> \<not> isJJ) t2"
    using assms by (auto simp: main_def)
  obtain e t' where "main_generate w (isGit \<and> \<not> isJJ) t2 = (e, t')"
    by (cases "main_generate w (isGit \<and> \<not> isJJ) t2")
  from main_generate_spawned [OF this] this m main_config_IsGit show ?thesis
    by simp
qed

lemma both_world_run:
  "generateCommitMessage both_world jj_config t = (Ok (), jj_run_io t)"
proof -
  let ?t1 = "started ''jj''
      [''log'', ''--no-graph'', ''-T'', ''local_bookmarks'', ''--limit'', ''1''] [] t"
  let ?t2 = "print_err (''Using default embedded template'' @ [NL]) ?t1"
  let ?t3 = "started ''jj''
      [''diff'', ''--git'', ''~pnpm-lock.yaml'', ''~yarn.lock'', ''~package-lock.json''] [] ?t2"
  have b: "getBranchName both_world (IsGit jj_config) t = (''feature'', ?t1)"
    by (simp add: getBranchName_def cmd_Output_def jj_config_def default_git_config_def
        both_world_def git_world_def proc_ok_def is_space_def)
  have p: "renderPromptTemplate both_world (Config.PromptPath jj_config)
         \<lparr>Branch = ''feature'', PromptData.UserContext = Config.UserContext jj_config\<rparr> ?t1
       = (Inr (rendered_default \<lparr>Branch = ''feature'', PromptData.UserContext = []\<rparr>), ?t2)"
    by (simp add: renderPromptTemplate_default jj_config_def default_git_config_def)
  have x: "excludePatterns both_world jj_config = Inr commonExcludes"
    by (simp add: excludePatterns_def jj_config_def default_git_config_def)
  have d: "getDiff both_world jj_config ?t2 = (Inr ''+hello world'', ?t3)"
    unfolding getDiff_def x
    by (simp add: diffCommand_def commonExcludes_def cmd_Output_def jj_config_def
        default_git_config_def both_world_def git_world_def proc_ok_def)
  have e: "truncateDiff both_world ''+hello world'' (MaxDiffSize jj_config) = Ok ''+hello world''"
    by code_simp
  have r: "run_llm both_world jj_config prompt ''+hello world'' ?t3
      = (Ok (),
         print_out (''Add greeting'' @ [NL])
           (started ''llm'' [''-s'', prompt] ''+hello world''
              (print_err (''Using default llm model'' @ [NL]) ?t3)))" for prompt
    by (simp add: run_llm_def jj_config_def default_git_config_def both_world_def git_world_def
        proc_ok_def print_err_def print_out_def started_def)
  show ?thesis
    unfolding generateCommitMessage_steps [OF b p d e] r jj_run_io_def ..
qed

lemma both_world_main:
  "main both_world =
     (Exit 0,
      jj_run_io (print_err (''Using Jujutsu for version control'' @ [NL])
        (print_err (''No configuration file found, using defaults'' @ [NL])
           (started ''jj'' [''status'', ''--quiet''] [] io_init))))"
proof -
  let ?t = "started ''jj'' [''status'', ''--quiet''] [] io_init"
  have l: "commandExists both_world ''llm''"
    by code_simp
  have g: "isGitRepo both_world io_init = (True, io_init)"
    by code_simp
  have j: "isJJRepo both_world io_init = (True, ?t)"
    by code_simp
  have c: "main_config both_world False ?t
      = (jj_config, print_err (''No configuration file found, using defaults'' @ [NL]) ?t)"
    by code_simp
  have "main both_world = main_generate both_world False ?t"
    by (simp add: main_def l g j)
  also have "\<dots> = (Exit 0, jj_run_io (print_err (''Using Jujutsu for version control'' @ [NL])
         (print_err (''No configuration file found, using defaults'' @ [NL]) ?t)))"
    by (simp add: main_generate_def c both_world_run)
  finally show ?thesis .
qed

lemma both_world_spawned:
  "map fst (drop 1 (spawned (snd (main both_world)))) = [''jj'', ''jj'', ''llm'']"
  by (simp add: both_world_main jj_run_io_def io_init_def)

theorem jujutsu_preferred_witness:
  "commandExists both_world ''llm''
   \<and> isGitRepo both_world io_init = (True, io_init)
   \<and> isJJRepo both_world io_init = (True, started ''jj'' [''status'', ''--quiet''] [] io_init)
   \<and> (True \<or> True)
   \<and> main both_world
        = main_generate both_world False (started ''jj'' [''status'', ''--quiet''] [] io_init)
   \<and> IsGit (fst (main_config both_world False
                    (started ''jj'' [''status'', ''--quiet''] [] io_init))) = False
   \<and> map fst (drop 1 (spawned (snd (main both_world)))) = [''jj'', ''jj'', ''llm'']
   \<and> list_all (\<lambda>(name, args, input). name = ''jj'' \<or> name = ''llm'')
        (drop 1 (spawned (snd (main both_world))))"
proof -
  have l: "commandExists both_world ''llm''"
    by (simp add: commandExists_def both_world_def git_world_def)
  have g: "isGitRepo both_world io_init = (True, io_init)"
    by (simp add: isGitRepo_def both_world_def git_world_def)
  have j: "isJJRepo both_world io_init = (True, started ''jj'' [''status'', ''--quiet''] [] io_init)"
    by (simp add: isJJRepo_def cmd_Run_def both_world_def git_world_def proc_ok_def)
  have b: "True \<or> True"
    by simp
  have n: "length (spawned (started ''jj'' [''status'', ''--quiet''] [] io_init)) = 1"
    by (simp add: io_init_def)
  from jujutsu_preferred [OF l g j b] l g j n both_world_spawned show ?thesis
    by (simp add: list_all_iff)
qed

lemma Atoi_empty: "Atoi [] = None"
  by (simp add: Atoi_def)

lemma try_config_paths_budget:
  "fst (try_config_paths w paths config t) =
     (case find (fileExists w) paths of
        None \<Rightarrow> (config, None, False)
      | Some path \<Rightarrow>
          (case toml_DecodeFile w path of
             (doc, Some err) \<Rightarrow>
               (decode_into doc config,
                Some (''error loading config from '' @ path @ '': '' @ err), False)
           | (doc, None) \<Rightarrow> (decode_into doc config, None, True)))"
  by (induction paths) (auto split: prod.splits option.splits)

lemma env_overrides_budget:
  "MaxDiffTokens (fst (env_overrides w config t)) = env_budget w (MaxDiffTokens config)"
  by (auto simp: env_overrides_def env_budget_def Let_def Atoi_empty split: option.splits)

lemma env_overrides_budget_eq:
  "env_overrides w config t = (config', t') \<Longrightarrow>
     MaxDiffTokens config' = env_budget w (MaxDiffTokens config)"
  using env_overrides_budget [of w config t] by simp

lemma decode_into_budget:
  "MaxDiffTokens (decode_into doc DefaultConfig) =
     (case max_diff_tokens doc of Some n \<Rightarrow> n | None \<Rightarrow> 12500)"
  by (simp add: decode_into_def DefaultConfig_def split: option.splits)

lemma loadConfig_budget:
  "(case fst (loadConfig w t) of
      (config, Some err) \<Rightarrow> 12500
    | (config, None) \<Rightarrow> MaxDiffTokens config) = resolved_budget w"
proof (cases "os_UserHomeDir w")
  case (Inl err)
  then show ?thesis
    by (simp add: loadConfig_def resolved_budget_def)
next
  case (Inr homeDir)
  let ?paths_loop = "try_config_paths w (configPaths w homeDir) DefaultConfig t"
  have shape: "fst ?paths_loop =
     (case find (fileExists w) (configPaths w homeDir) of
        None \<Rightarrow> (DefaultConfig, None, False)
      | Some path \<Rightarrow>
          (case toml_DecodeFile w path of
             (doc, Some err) \<Rightarrow>
               (decode_into doc DefaultConfig,
                Some (''error loading config from '' @ path @ '': '' @ err), False)
           | (doc, None) \<Rightarrow> (decode_into doc DefaultConfig, None, True)))"
    by (rule try_config_paths_budget)
  obtain t' where t': "?paths_loop = (fst ?paths_loop, t')"
    by (cases ?paths_loop) simp
  show ?thesis
  proof (cases "find (fileExists w) (configPaths w homeDir)")
    case None
    with shape t' have tr: "?paths_loop = ((DefaultConfig, None, False), t')"
      by simp
    obtain c u where e: "env_overrides w DefaultConfig
        (print_err (''No configuration file found, using defaults'' @ [NL]) t') = (c, u)"
      by (cases "env_overrides w DefaultConfig
        (print_err (''No configuration file found, using defaults'' @ [NL]) t')")
    from env_overrides_budget_eq [OF e] have "MaxDiffTokens c = env_budget w 12500"
      by (simp add: DefaultConfig_def)
    with Inr None tr e show ?thesis
      by (simp add: loadConfig_def resolved_budget_def)
  next
    case (Some path)
    obtain doc err where d: "toml_DecodeFile w path = (doc, err)"
      by (cases "toml_DecodeFile w path")
    show ?thesis
    proof (cases err)
      case None
      with shape t' Some d have tr: "?paths_loop = ((decode_into doc DefaultConfig, None, True), t')"
        by simp
      obtain c u where e: "env_overrides w (decode_into doc DefaultConfig) t' = (c, u)"
        by (cases "env_overrides w (decode_into doc DefaultConfig) t'")
      from env_overrides_budget_eq [OF e] decode_into_budget [of doc]
      have "MaxDiffTokens c =
          env_budget w (case max_diff_tokens doc of Some n \<Rightarrow> n | None \<Rightarrow> 12500)"
        by simp
      with Inr Some d None tr e show ?thesis
        by (simp add: loadConfig_def resolved_budget_def)
    next
      case (Some msg)
      with shape t' \<open>find (fileExists w) (configPaths w homeDir) = Some path\<close> d
      have tr: "?paths_loop = ((decode_into doc DefaultConfig,
          Some (''error loading config from '' @ path @ '': '' @ msg), False), t')"
        by simp
      with Inr \<open>find (fileExists w) (configPaths w homeDir) = Some path\<close> d Some show ?thesis
        by (simp add: loadConfig_def resolved_budget_def)
    qed
  qed
qed

text \<open>
  Claim C6, as amended. The budget handed to \<open>generateCommitMessage\<close> is resolved in this
  order: if the home directory cannot be determined, or the first existing configuration
  file does not decode, it is the default 12500 and the environment is not consulted;
  otherwise, if the environment variable holds text that \<open>strconv.Atoi\<close> accepts, it is that
  integer; otherwise it is the \<open>max_diff_tokens\<close> key of the first existing configuration
  file, if there is such a file and it sets the key; otherwise it is 12500.
\<close>

theorem budget_precedence:
  "MaxDiffSize (fst (main_config w useGit t)) = resolved_budget w"
  using loadConfig_budget [of w t]
  by (auto simp: main_config_def Let_def DefaultConfig_def split: prod.splits option.splits)

theorem budget_precedence_witness:
  "MaxDiffSize (fst (main_config env_and_config_world True io_init))
     = resolved_budget env_and_config_world
   \<and> resolved_budget env_and_config_world = 100"
proof -
  have "resolved_budget env_and_config_world = 100"
    by code_simp
  with budget_precedence [of env_and_config_world True io_init] show ?thesis
    by simp
qed

text \<open>
  The claim as first stated lets the environment variable win whenever it is set. With the
  variable set to \<open>100\<close> and a configuration file that does not decode, the budget is 12500;
  with the variable set to \<open>12k\<close> and a configuration file that sets 500, the budget is 500.
\<close>

theorem environment_does_not_always_win:
  "os_Getenv broken_config_world ''LAZYCOMMIT_MAX_TOKENS'' = ''100''
   \<and> MaxDiffSize (fst (main_config broken_config_world True io_init)) = 12500
   \<and> os_Getenv bad_env_world ''LAZYCOMMIT_MAX_TOKENS'' = ''12k''
   \<and> MaxDiffSize (fst (main_config bad_env_world True io_init)) = 500"
  by code_simp

section \<open>Properties of getGeneratedFilesFromGitattributes and getDiff\<close>

lemma rune_width_le: "rune_width s \<le> length s"
  by (cases s) (auto simp: Let_def split: list.splits)

lemma rune_width_ascii: "s \<noteq> [] \<Longrightarrow> (of_char (hd s) :: nat) < 0x80 \<Longrightarrow> rune_width s = 1"
  by (cases s) auto

lemma rune_width_append:
  assumes "x \<noteq> []" and "r \<noteq> []" and "(of_char (hd r) :: nat) < 0x80"
  shows "rune_width (x @ r) = rune_width x"
proof -
  have n: "\<not> cont_byte (hd r)" "\<And>v. \<not> second_byte v (hd r)"
    using assms(3) by (auto simp: cont_byte_def second_byte_def)
  obtain b0 bs where x: "x = b0 # bs"
    using assms(1) by (cases x) auto
  obtain c cs where r: "r = c # cs"
    using assms(2) by (cases r) auto
  show ?thesis
  proof (cases bs)
    case Nil
    with x r n show ?thesis by (simp add: Let_def split: list.splits)
  next
    case (Cons b1 bs1)
    note b1 = this
    show ?thesis
    proof (cases bs1)
      case Nil
      with x r n b1 show ?thesis by (simp add: Let_def split: list.splits)
    next
      case (Cons b2 bs2)
      note b2 = this
      show ?thesis
      proof (cases bs2)
        case Nil
        with x r n b1 b2 show ?thesis by (simp add: Let_def split: list.splits)
      next
        case (Cons b3 bs3)
        with x r n b1 b2 show ?thesis by (simp add: Let_def)
      qed
    qed
  qed
qed

lemma greedy_nonempty: "greedy P s \<noteq> []"
  by (subst greedy.simps) simp

lemma greedy_suffix: "r \<in> set (greedy P s) \<Longrightarrow> suffix r s"
proof (induction P s rule: greedy.induct)
  case (1 P s)
  show ?case
  proof (cases "s \<noteq> [] \<and> P (hd s)")
    case True
    with "1.prems" have "r \<in> set (greedy P (drop (rune_width s) s)) \<or> r = s"
      by (subst (asm) greedy.simps) auto
    then show ?thesis
    proof
      assume "r \<in> set (greedy P (drop (rune_width s) s))"
      with "1.IH" True have "suffix r (drop (rune_width s) s)"
        by simp
      then show ?thesis
        using suffix_drop suffix_order.trans by blast
    qed simp
  next
    case False
    with "1.prems" show ?thesis
      by (subst (asm) greedy.simps) auto
  qed
qed

lemma greedy_ascii:
  "\<forall>c. P c \<longrightarrow> (of_char c :: nat) < 0x80 \<Longrightarrow> r \<in> set (greedy P s) \<Longrightarrow>
     \<exists>a. s = a @ r \<and> (\<forall>c\<in>set a. P c)"
proof (induction P s rule: greedy.induct)
  case (1 P s)
  show ?case
  proof (cases "s \<noteq> [] \<and> P (hd s)")
    case True
    with "1.prems" have "r \<in> set (greedy P (drop (rune_width s) s)) \<or> r = s"
      by (subst (asm) greedy.simps) auto
    then show ?thesis
    proof
      assume "r \<in> set (greedy P (drop (rune_width s) s))"
      moreover have "rune_width s = 1"
        using True "1.prems"(1) by (simp add: rune_width_ascii)
      ultimately obtain a where "drop 1 s = a @ r" "\<forall>c\<in>set a. P c"
        using "1.IH" True "1.prems"(1) by auto
      with True have "s = (hd s # a) @ r \<and> (\<forall>c\<in>set (hd s # a). P c)"
        by (cases s) auto
      then show ?thesis
        by blast
    qed auto
  next
    case False
    with "1.prems" show ?thesis
      by (subst (asm) greedy.simps) auto
  qed
qed

lemma is_space_ascii: "is_space c \<Longrightarrow> (of_char c :: nat) < 0x80"
  by (auto simp: is_space_def)

lemma match_space_star:
  "r \<in> set (match_item (Star is_space) s) \<Longrightarrow> \<exists>a. s = a @ r \<and> (\<forall>c\<in>set a. is_space c)"
  using greedy_ascii [of is_space r s] is_space_ascii by auto

lemma match_item_suffix: "r \<in> set (match_item i s) \<Longrightarrow> suffix r s"
proof (cases i)
  case (One P)
  then show "r \<in> set (match_item i s) \<Longrightarrow> suffix r s"
    by (auto simp: suffix_drop split: if_splits)
next
  case (Star P)
  then show "r \<in> set (match_item i s) \<Longrightarrow> suffix r s"
    by (auto dest: greedy_suffix)
next
  case (Plus P)
  then show "r \<in> set (match_item i s) \<Longrightarrow> suffix r s"
    by (auto split: if_splits dest!: greedy_suffix intro: suffix_order.trans [OF _ suffix_drop])
next
  case (Lit l)
  then show "r \<in> set (match_item i s) \<Longrightarrow> suffix r s"
    by (auto simp: suffix_drop split: if_splits)
qed

lemma match_seq_suffix: "r \<in> set (match_seq items s) \<Longrightarrow> suffix r s"
proof (induction items arbitrary: s)
  case Nil
  then show ?case by simp
next
  case (Cons i items)
  then obtain s' where "s' \<in> set (match_item i s)" "r \<in> set (match_seq items s')"
    by auto
  with Cons.IH match_item_suffix show ?case
    using suffix_order.trans by blast
qed

lemma match_lit: "r \<in> set (match_item (Lit l) s) \<Longrightarrow> s = l @ r"
  by (auto simp: prefix_def split: if_splits)

lemma match_rest_shape:
  assumes "r' \<in> set (match_seq re_rest r)"
  shows "\<exists>pre a b. r = pre @ ''linguist-generated'' @ a @ ''='' @ b @ ''true'' @ r'
           \<and> (\<forall>c\<in>set a. is_space c) \<and> (\<forall>c\<in>set b. is_space c)"
proof -
  from assms obtain s1 s2 s3 s4 s5 s6 where
    1: "s1 \<in> set (match_item (Plus is_space) r)" and
    2: "s2 \<in> set (match_item (Star (\<lambda>c. c \<noteq> NL)) s1)" and
    3: "s3 \<in> set (match_item (Lit ''linguist-generated'') s2)" and
    4: "s4 \<in> set (match_item (Star is_space) s3)" and
    5: "s5 \<in> set (match_item (Lit ''='') s4)" and
    6: "s6 \<in> set (match_item (Star is_space) s5)" and
    7: "r' \<in> set (match_item (Lit ''true'') s6)"
    unfolding re_rest_def by (auto simp del: match_item.simps)
  from 1 2 obtain pre where p: "r = pre @ s2"
    by (meson match_item_suffix suffix_def suffix_order.trans)
  from 4 obtain a where a: "s3 = a @ s4" "\<forall>c\<in>set a. is_space c"
    using match_space_star by blast
  from 6 obtain b where b: "s5 = b @ s6" "\<forall>c\<in>set b. is_space c"
    using match_space_star by blast
  from match_lit [OF 3] match_lit [OF 5] match_lit [OF 7] p a b
  have "r = pre @ ''linguist-generated'' @ a @ ''='' @ b @ ''true'' @ r'"
    by simp
  with a b show ?thesis
    by blast
qed

declare rune_width.simps [simp del]

lemma scan_loop_patterns: "scan_loop ls patterns = patterns @ concat (map line_patterns ls)"
  by (induction ls arbitrary: patterns) (simp_all add: line_patterns_def Let_def)

lemma getGenerated_patterns:
  assumes "os_Open w ''.gitattributes'' = Inr file" and "Scanner file = (ls, None)"
  shows "getGeneratedFilesFromGitattributes w = Inr (concat (map line_patterns ls))"
  using assms by (simp add: getGeneratedFilesFromGitattributes_def scan_loop_patterns)

lemma FindStringSubmatch_matched:
  assumes "FindStringSubmatch line \<noteq> []"
  shows "\<exists>r r'. r \<in> set (match_seq re_group line) \<and> r' \<in> set (match_seq re_rest r)"
proof -
  from assms obtain r rs where
    "filter (\<lambda>r. match_seq re_rest r \<noteq> []) (match_seq re_group line) = r # rs"
    by (auto simp: FindStringSubmatch_def split: list.splits)
  then have "r \<in> set (filter (\<lambda>r. match_seq re_rest r \<noteq> []) (match_seq re_group line))"
    by simp
  then have "r \<in> set (match_seq re_group line)" and "match_seq re_rest r \<noteq> []"
    by auto
  then show ?thesis
    by (meson hd_in_set)
qed

lemma line_patterns_needs_attribute:
  assumes "line_patterns line \<noteq> []"
  shows "\<exists>pre a b post.
           line = pre @ ''linguist-generated'' @ a @ ''='' @ b @ ''true'' @ post
           \<and> (\<forall>c\<in>set a. is_space c) \<and> (\<forall>c\<in>set b. is_space c)"
proof -
  from assms have "FindStringSubmatch line \<noteq> []"
    by (auto simp: line_patterns_def Let_def split: if_splits)
  then obtain r r' where g: "r \<in> set (match_seq re_group line)"
    and m: "r' \<in> set (match_seq re_rest r)"
    using FindStringSubmatch_matched by blast
  from match_seq_suffix [OF g] obtain p where p: "line = p @ r"
    by (auto simp: suffix_def)
  from match_rest_shape [OF m] obtain pre a b where
    "r = pre @ ''linguist-generated'' @ a @ ''='' @ b @ ''true'' @ r'"
    "\<forall>c\<in>set a. is_space c" "\<forall>c\<in>set b. is_space c"
    by blast
  with p have "line = (p @ pre) @ ''linguist-generated'' @ a @ ''='' @ b @ ''true'' @ r'
      \<and> (\<forall>c\<in>set a. is_space c) \<and> (\<forall>c\<in>set b. is_space c)"
    by simp
  then show ?thesis
    by blast
qed

lemma line_patterns_comment:
  assumes "line \<noteq> []" and "hd line = CHR ''#''"
  shows "line_patterns line = []"
  using assms
  by (simp add: line_patterns_def FindStringSubmatch_def re_group_def)

lemma greedy_run:
  assumes "\<forall>c\<in>set q. P c" and "rest \<noteq> []" and "\<not> P (hd rest)"
    and "(of_char (hd rest) :: nat) < 0x80"
  shows "hd (greedy P (q @ rest)) = rest"
  using assms(1)
proof (induction "length q" arbitrary: q rule: less_induct)
  case less
  show ?case
  proof (cases "q = []")
    case True
    with assms show ?thesis
      by (subst greedy.simps) simp
  next
    case False
    with less.prems have P: "q @ rest \<noteq> [] \<and> P (hd (q @ rest))"
      by (cases q) auto
    have w: "rune_width (q @ rest) = rune_width q"
      using False assms by (simp add: rune_width_append)
    have "0 < rune_width q" "rune_width q \<le> length q"
      using False by (simp_all add: rune_width_pos rune_width_le)
    then have d: "drop (rune_width (q @ rest)) (q @ rest) = drop (rune_width q) q @ rest"
      and l: "length (drop (rune_width q) q) < length q"
      using w False by auto
    have "\<forall>c\<in>set (drop (rune_width q) q). P c"
      using less.prems by (meson in_set_dropD)
    with less.hyps [OF l] have "hd (greedy P (drop (rune_width q) q @ rest)) = rest"
      by simp
    with P d show ?thesis
      by (subst greedy.simps) (simp add: greedy_nonempty)
  qed
qed

lemma match_seq_end: "concat (map (match_seq []) rs) = rs"
  by (induction rs) simp_all

lemma rest_matches: "match_seq re_rest '' linguist-generated=true'' = [[]]"
  by code_simp

lemma line_patterns_plain:
  assumes "p \<noteq> []" and "hd p \<noteq> CHR ''#''" and "\<forall>c\<in>set p. \<not> is_space c"
    and "rune_width p < length p"
  shows "line_patterns (p @ '' linguist-generated=true'') = [p]"
proof -
  let ?rest = "'' linguist-generated=true''"
  let ?P = "\<lambda>c. \<not> is_space c"
  let ?q = "drop (rune_width p) p"
  have sp: "?rest \<noteq> []" "\<not> ?P (hd ?rest)" "(of_char (hd ?rest) :: nat) < 0x80"
    by (simp_all add: is_space_def)
  have w: "rune_width (p @ ?rest) = rune_width p"
    using assms(1) by (simp add: rune_width_append)
  have q: "?q \<noteq> []" "\<forall>c\<in>set ?q. ?P c"
    using assms by (auto dest: in_set_dropD)
  have w': "rune_width (?q @ ?rest) = rune_width ?q"
    using q(1) by (simp add: rune_width_append)
  have "rune_width ?q \<le> length ?q"
    by (rule rune_width_le)
  then have d: "drop (rune_width (?q @ ?rest)) (?q @ ?rest) = drop (rune_width ?q) ?q @ ?rest"
    using w' by simp
  have "\<forall>c\<in>set (drop (rune_width ?q) ?q). ?P c"
    using q(2) by (meson in_set_dropD)
  from greedy_run [OF this sp]
  have h: "hd (greedy ?P (drop (rune_width ?q) ?q @ ?rest)) = ?rest" .
  have one: "match_item (One (\<lambda>c. c \<noteq> CHR ''#'')) (p @ ?rest) = [?q @ ?rest]"
    using assms w by (simp add: hd_append)
  have plus: "match_item (Plus ?P) (?q @ ?rest) = greedy ?P (drop (rune_width ?q) ?q @ ?rest)"
    using q d by (simp add: hd_append)
  have "match_seq re_group (p @ ?rest) = greedy ?P (drop (rune_width ?q) ?q @ ?rest)"
    unfolding re_group_def by (simp add: one plus match_seq_end del: match_item.simps)
  with h greedy_nonempty [of ?P "drop (rune_width ?q) ?q @ ?rest"]
  obtain rs where g: "match_seq re_group (p @ ?rest) = ?rest # rs"
    by (metis list.collapse)
  have "FindStringSubmatch (p @ ?rest) = [p @ ?rest, p]"
    unfolding FindStringSubmatch_def g by (simp add: rest_matches)
  then show ?thesis
    by (simp add: line_patterns_def)
qed

lemma scan_attributes_text:
  "Scanner \<lparr>file_data = attributes_text, read_error = None\<rparr>
     = ([''# generated files'', ''*.pb.go linguist-generated=true'', ''README.md text'',
         ''generated.go linguist-generated=true''], None)"
  by (simp add: Scanner_def scan_lines.simps attributes_text_def MaxScanTokenSize_def dropCR_def)

lemma attributes_world_patterns:
  "getGeneratedFilesFromGitattributes attributes_world = Inr [''*.pb.go'', ''generated.go'']"
proof -
  have o: "os_Open attributes_world ''.gitattributes''
      = Inr \<lparr>file_data = attributes_text, read_error = None\<rparr>"
    by (simp add: attributes_world_def with_gitattributes_def)
  have c: "concat (map line_patterns [''# generated files'', ''*.pb.go linguist-generated=true'',
      ''README.md text'', ''generated.go linguist-generated=true'']) = [''*.pb.go'', ''generated.go'']"
    by code_simp
  from getGenerated_patterns [OF o scan_attributes_text] c show ?thesis
    by simp
qed

lemma lock_attributes_world_patterns:
  "getGeneratedFilesFromGitattributes lock_attributes_world = Inr [''yarn.lock'']"
proof -
  have o: "os_Open lock_attributes_world ''.gitattributes''
      = Inr \<lparr>file_data = ''yarn.lock linguist-generated=true'' @ [NL], read_error = None\<rparr>"
    by (simp add: lock_attributes_world_def with_gitattributes_def)
  have s: "Scanner \<lparr>file_data = ''yarn.lock linguist-generated=true'' @ [NL], read_error = None\<rparr>
      = ([''yarn.lock linguist-generated=true''], None)"
    by (simp add: Scanner_def scan_lines.simps MaxScanTokenSize_def dropCR_def)
  have c: "concat (map line_patterns [''yarn.lock linguist-generated=true'']) = [''yarn.lock'']"
    by code_simp
  from getGenerated_patterns [OF o s] c show ?thesis
    by simp
qed

text \<open>
  Claim C5, as amended. When the scanner delivers the lines of \<open>.gitattributes\<close> without
  error, the patterns returned are what the lines contribute, line by line and in order; a
  line that contributes nothing is skipped and the scan goes on with the lines after it.
  A line made of a path pattern (of more than one character, none of them whitespace, the
  first not \<open>#\<close>), a space and \<open>linguist-generated=true\<close> contributes that pattern, as
  \<open>generated.go linguist-generated=true\<close> contributes \<open>generated.go\<close>. A line contributes
  nothing unless it contains \<open>linguist-generated\<close>, optional whitespace, \<open>=\<close>, optional
  whitespace and \<open>true\<close>. A line that starts with \<open>#\<close> contributes nothing.
\<close>

theorem gitattributes_patterns:
  "(os_Open w ''.gitattributes'' = Inr file \<and> Scanner file = (ls, None)
      \<longrightarrow> getGeneratedFilesFromGitattributes w = Inr (concat (map line_patterns ls)))
   \<and> (p \<noteq> [] \<and> hd p \<noteq> CHR ''#'' \<and> (\<forall>c\<in>set p. \<not> is_space c) \<and> rune_width p < length p
      \<longrightarrow> line_patterns (p @ '' linguist-generated=true'') = [p])
   \<and> (line_patterns line \<noteq> []
      \<longrightarrow> (\<exists>pre a b post.
             line = pre @ ''linguist-generated'' @ a @ ''='' @ b @ ''true'' @ post
             \<and> (\<forall>c\<in>set a. is_space c) \<and> (\<forall>c\<in>set b. is_space c)))
   \<and> (comment \<noteq> [] \<and> hd comment = CHR ''#'' \<longrightarrow> line_patterns comment = [])"
  using getGenerated_patterns [of w "file" ls] line_patterns_plain [of p]
    line_patterns_needs_attribute [of line] line_patterns_comment [of comment]
  by blast

theorem gitattributes_patterns_witness:
  "os_Open attributes_world ''.gitattributes''
     = Inr \<lparr>file_data = attributes_text, read_error = None\<rparr>
   \<and> Scanner \<lparr>file_data = attributes_text, read_error = None\<rparr>
     = ([''# generated files'', ''*.pb.go linguist-generated=true'', ''README.md text'',
         ''generated.go linguist-generated=true''], None)
   \<and> getGeneratedFilesFromGitattributes attributes_world = Inr [''*.pb.go'', ''generated.go'']
   \<and> ''generated.go'' \<noteq> [] \<and> hd ''generated.go'' \<noteq> CHR ''#''
   \<and> list_all (\<lambda>c. \<not> is_space c) ''generated.go''
   \<and> rune_width ''generated.go'' < length ''generated.go''
   \<and> line_patterns (''generated.go'' @ '' linguist-generated=true'') = [''generated.go'']
   \<and> line_patterns ''*.pb.go linguist-generated=true'' \<noteq> []
   \<and> (\<exists>pre a b post.
         ''*.pb.go linguist-generated=true''
           = pre @ ''linguist-generated'' @ a @ ''='' @ b @ ''true'' @ post
         \<and> list_all is_space a \<and> list_all is_space b)
   \<and> ''# generated files'' \<noteq> [] \<and> hd ''# generated files'' = CHR ''#''
   \<and> line_patterns ''# generated files'' = []"
proof -
  let ?file = "\<lparr>file_data = attributes_text, read_error = None\<rparr>"
  let ?ls = "[''# generated files'', ''*.pb.go linguist-generated=true'', ''README.md text'',
         ''generated.go linguist-generated=true'']"
  have o: "os_Open attributes_world ''.gitattributes'' = Inr ?file"
    by (simp add: attributes_world_def with_gitattributes_def)
  have s: "Scanner ?file = (?ls, None)"
    by (rule scan_attributes_text)
  have c: "concat (map line_patterns ?ls) = [''*.pb.go'', ''generated.go'']"
    by code_simp
  have p: "''generated.go'' \<noteq> [] \<and> hd ''generated.go'' \<noteq> CHR ''#''
      \<and> (\<forall>c\<in>set ''generated.go''. \<not> is_space c)
      \<and> rune_width ''generated.go'' < length ''generated.go''"
    by (simp add: is_space_def rune_width.simps)
  have l: "line_patterns ''*.pb.go linguist-generated=true'' \<noteq> []"
    by code_simp
  have h: "''# generated files'' \<noteq> [] \<and> hd ''# generated files'' = CHR ''#''"
    by simp
  from gitattributes_patterns [of attributes_world ?file ?ls "''generated.go''"
      "''*.pb.go linguist-generated=true''" "''# generated files''"] o s c p l h
  show ?thesis
    by (simp add: list_all_iff)
qed

text \<open>
  The claim as first stated lets only lines that contain \<open>linguist-generated=true\<close>
  contribute. The expression allows whitespace around \<open>=\<close>, so a line without that text
  can contribute its pattern.
\<close>

theorem attribute_with_spaces_matches:
  "\<not> sublist ''linguist-generated=true'' ''gen.go linguist-generated = true''
   \<and> line_patterns ''gen.go linguist-generated = true'' = [''gen.go'']"
  by code_simp

text \<open>
  Claim C2, as amended. The exclude-pattern list is the patterns parsed from
  \<open>.gitattributes\<close> (for Git, when the file exists; none otherwise) followed by the three
  fixed lock-file names, which differ from each other. Nothing removes repetitions: the
  list is free of duplicates exactly when the parsed patterns are free of duplicates and
  none of them is one of the fixed names.
\<close>

theorem exclude_patterns_list:
  assumes "excludePatterns w config = Inr pats"
  shows "\<exists>generated.
           pats = generated @ [''pnpm-lock.yaml'', ''yarn.lock'', ''package-lock.json'']
           \<and> (if IsGit config \<and> fileExists w ''.gitattributes''
                then getGeneratedFilesFromGitattributes w = Inr generated
                else generated = [])
           \<and> (distinct pats \<longleftrightarrow>
                  distinct generated
                  \<and> set generated \<inter> {''pnpm-lock.yaml'', ''yarn.lock'', ''package-lock.json''} = {})"
  using assms
  by (auto simp: excludePatterns_def commonExcludes_def split: if_splits sum.splits)

theorem exclude_patterns_list_witness:
  "excludePatterns attributes_world default_git_config
     = Inr [''*.pb.go'', ''generated.go'', ''pnpm-lock.yaml'', ''yarn.lock'', ''package-lock.json'']
   \<and> (\<exists>generated.
         [''*.pb.go'', ''generated.go'', ''pnpm-lock.yaml'', ''yarn.lock'', ''package-lock.json'']
           = generated @ [''pnpm-lock.yaml'', ''yarn.lock'', ''package-lock.json'']
         \<and> (if IsGit default_git_config \<and> fileExists attributes_world ''.gitattributes''
              then getGeneratedFilesFromGitattributes attributes_world = Inr generated
              else generated = [])
         \<and> (distinct [''*.pb.go'', ''generated.go'', ''pnpm-lock.yaml'', ''yarn.lock'',
                       ''package-lock.json'']
              \<longleftrightarrow> distinct generated
                  \<and> set generated \<inter> {''pnpm-lock.yaml'', ''yarn.lock'', ''package-lock.json''} = {}))"
proof -
  have e: "excludePatterns attributes_world default_git_config
     = Inr [''*.pb.go'', ''generated.go'', ''pnpm-lock.yaml'', ''yarn.lock'', ''package-lock.json'']"
    by (simp add: excludePatterns_def attributes_world_patterns commonExcludes_def
        default_git_config_def fileExists_def)
       (simp add: attributes_world_def with_gitattributes_def)
  from exclude_patterns_list [OF e] e show ?thesis
    by blast
qed

text \<open>
  The claim as first stated has every pattern at most once. When \<open>.gitattributes\<close> marks
  \<open>yarn.lock\<close> as generated the list holds it twice, and so does the command line.
\<close>

theorem exclude_patterns_repeat:
  "excludePatterns lock_attributes_world default_git_config
     = Inr [''yarn.lock'', ''pnpm-lock.yaml'', ''yarn.lock'', ''package-lock.json'']
   \<and> \<not> distinct [''yarn.lock'', ''pnpm-lock.yaml'', ''yarn.lock'', ''package-lock.json'']
   \<and> snd (diffCommand default_git_config
             [''yarn.lock'', ''pnpm-lock.yaml'', ''yarn.lock'', ''package-lock.json''])
     = [''diff'', ''--cached'', ''--'', ''.'', '':(exclude)yarn.lock'',
        '':(exclude)pnpm-lock.yaml'', '':(exclude)yarn.lock'', '':(exclude)package-lock.json'']"
proof -
  have "fileExists lock_attributes_world ''.gitattributes''"
    by (simp add: fileExists_def lock_attributes_world_def with_gitattributes_def)
  then have "excludePatterns lock_attributes_world default_git_config
     = Inr [''yarn.lock'', ''pnpm-lock.yaml'', ''yarn.lock'', ''package-lock.json'']"
    by (simp add: excludePatterns_def lock_attributes_world_patterns commonExcludes_def
        default_git_config_def)
  then show ?thesis
    by (simp add: diffCommand_def default_git_config_def)
qed

end
